theory Spec2Isabelle
  imports Complex_Main "HOL-Library.Sublist" "HOL-Library.Multiset" "HOL-Library.Extended_Nat"
begin

section \<open>JavaScript strings\<close>

text \<open>
  A JavaScript string is a sequence of UTF-16 code units. It is modelled as an Isabelle
  \<open>string\<close>, each \<open>char\<close> standing for one code unit in the range 0..255, so that
  \<open>length\<close> is the \<open>.length\<close> of the source. The white space class \<open>\s\<close> of a
  regular expression, which is also what \<open>trim()\<close> strips, has seven members in that range.
\<close>

definition isSpace :: "char \<Rightarrow> bool" where
  "isSpace c = (c \<in> {CHR 0x09, CHR 0x0A, CHR 0x0B, CHR 0x0C, CHR 0x0D, CHR 0x20, CHR 0xA0})"

definition isDigit :: "char \<Rightarrow> bool" where
  "isDigit c = (c \<in> set ''0123456789'')"

text \<open>\<open>s.trim()\<close>\<close>

definition trim :: "string \<Rightarrow> string" where
  "trim s = rev (dropWhile isSpace (rev (dropWhile isSpace s)))"

text \<open>\<open>s.replace(/\s+/g, ' ')\<close>: every maximal run of white space becomes one space.\<close>

function collapseSpaces :: "string \<Rightarrow> string" where
  "collapseSpaces [] = []"
| "collapseSpaces (c # cs) =
     (if isSpace c then CHR '' '' # collapseSpaces (dropWhile isSpace cs)
      else c # collapseSpaces cs)"
  by pat_completeness auto
termination
  by (relation "measure length") (auto simp: length_dropWhile_le less_Suc_eq_le)

text \<open>\<open>s.replace(/c/g, r)\<close> for a pattern that is the single character \<open>c\<close>.\<close>

definition replaceAll :: "char \<Rightarrow> string \<Rightarrow> string \<Rightarrow> string" where
  "replaceAll c r s = concat (map (\<lambda>x. if x = c then r else [x]) s)"

text \<open>\<open>s.includes(p)\<close>\<close>

fun strIncludes :: "string \<Rightarrow> string \<Rightarrow> bool" where
  "strIncludes [] p = (p = [])"
| "strIncludes (c # cs) p = (prefix p (c # cs) \<or> strIncludes cs p)"

text \<open>
  \<open>s.toLowerCase()\<close> on code units below 256: the letters A to Z and the upper-case
  letters of ISO 8859-1 (0xC0 to 0xDE without the multiplication sign 0xD7).
\<close>

definition lowerChar :: "char \<Rightarrow> char" where
  "lowerChar c =
     (let n = (of_char c :: nat)
      in if (65 \<le> n \<and> n \<le> 90) \<or> (192 \<le> n \<and> n \<le> 222 \<and> n \<noteq> 215)
         then char_of (n + 32) else c)"

definition toLowerCase :: "string \<Rightarrow> string" where
  "toLowerCase s = map lowerChar s"

text \<open>
  The decimal rendering of a non-negative integer, as a template literal
  \<open>${index + 1}\<close> produces it.
\<close>

definition digitChar :: "nat \<Rightarrow> char" where
  "digitChar d = char_of (48 + d)"

fun showNat :: "nat \<Rightarrow> string" where
  "showNat n = (if n < 10 then [digitChar n] else showNat (n div 10) @ [digitChar (n mod 10)])"

declare showNat.simps [simp del]

text \<open>\<open>xs.join(sep)\<close>\<close>

fun join :: "string \<Rightarrow> string list \<Rightarrow> string" where
  "join sep [] = []"
| "join sep [x] = x"
| "join sep (x # y # ys) = x @ sep @ join sep (y # ys)"

text \<open>\<open>title.match(/\d+/)\<close> returns the first maximal run of decimal digits, or null.\<close>

definition matchDigits :: "string \<Rightarrow> string option" where
  "matchDigits s =
     (case dropWhile (\<lambda>c. \<not> isDigit c) s of
        [] \<Rightarrow> None
      | c # cs \<Rightarrow> Some (takeWhile isDigit (c # cs)))"

text \<open>
  \<open>parseInt\<close> of a run of digits is a Number, that is an IEEE double: the double nearest
  the value of the digits, the one with the even significand when two are equally near,
  and \<open>Infinity\<close> from \<open>2^1024 - 2^970\<close> on. The multiple of \<open>u\<close> nearest \<open>n\<close>, an even
  multiple when two are equally near, is \<open>roundMultiple u n\<close>; a double has 53 significant
  bits, so the doubles around \<open>n\<close> are the multiples of the least power of two \<open>u\<close> with
  \<open>n < 2^53 * u\<close>. Up to \<open>2^53\<close> the value is kept as it is.
\<close>

definition digitVal :: "char \<Rightarrow> nat" where
  "digitVal c = of_char c - 48"

definition digitsValue :: "string \<Rightarrow> int" where
  "digitsValue ds = foldl (\<lambda>a c. 10 * a + int (digitVal c)) 0 ds"

definition roundMultiple :: "int \<Rightarrow> int \<Rightarrow> int" where
  "roundMultiple u n =
     (let q = n div u; r = n mod u
      in if u < 2 * r \<or> (2 * r = u \<and> odd q) then (q + 1) * u else q * u)"

function nearest :: "int \<Rightarrow> int \<Rightarrow> int" where
  "nearest u n = (if u \<le> 0 \<or> n < 2 ^ 53 * u then roundMultiple u n else nearest (2 * u) n)"
  by pat_completeness auto
termination
  by (relation "measure (\<lambda>(u, n). nat (n + 1 - u))") (auto simp: not_less)

declare nearest.simps [simp del]

definition toNumber :: "int \<Rightarrow> enat" where
  "toNumber n = (if nearest 1 n < 2 ^ 1024 then enat (nat (nearest 1 n)) else \<infinity>)"

definition parseInt :: "string \<Rightarrow> enat" where
  "parseInt ds = toNumber (digitsValue ds)"

text \<open>
  The difference \<open>a - b\<close> of two such Numbers, as far as \<open>sort\<close> reads the result of a
  comparison function: an integer of the same sign, and 0 for the \<open>NaN\<close> that
  \<open>Infinity - Infinity\<close> gives, which \<open>sort\<close> takes as 0.
\<close>

definition numberDifference :: "enat \<Rightarrow> enat \<Rightarrow> int" where
  "numberDifference a b =
     (case a of
        enat m \<Rightarrow> (case b of enat n \<Rightarrow> int m - int n | \<infinity> \<Rightarrow> - 1)
      | \<infinity> \<Rightarrow> (case b of enat n \<Rightarrow> 1 | \<infinity> \<Rightarrow> 0))"

section \<open>Utils\<close>

text \<open>
  \<open>Utils.cleanText\<close>: \<open>text.replace(/\s+/g, ' ').replace(/\n\s*\n/g, '\n').trim()\<close>, the
  empty string for a falsy argument. The second replacement looks for a line feed, white
  space and a line feed again; the match is greedy, so it ends at the last line feed of the
  white space run.
\<close>

function replaceBlankLines :: "string \<Rightarrow> string" where
  "replaceBlankLines [] = []"
| "replaceBlankLines (c # cs) =
     (if c = CHR 0x0A \<and> CHR 0x0A \<in> set (takeWhile isSpace cs)
      then CHR 0x0A #
           replaceBlankLines
             (rev (takeWhile (\<lambda>x. x \<noteq> CHR 0x0A) (rev (takeWhile isSpace cs)))
              @ dropWhile isSpace cs)
      else c # replaceBlankLines cs)"
  by pat_completeness auto
termination
proof (relation "measure length", goal_cases)
  case 1
  show ?case by simp
next
  case (2 c cs)
  have "length (rev (takeWhile (\<lambda>x. x \<noteq> CHR 0x0A) (rev (takeWhile isSpace cs))))
          \<le> length (takeWhile isSpace cs)"
    using length_takeWhile_le [of "\<lambda>x. x \<noteq> CHR 0x0A" "rev (takeWhile isSpace cs)"] by simp
  moreover have "length (takeWhile isSpace cs) + length (dropWhile isSpace cs) = length cs"
    by (metis length_append takeWhile_dropWhile_id)
  ultimately show ?case by simp
next
  case 3
  then show ?case by simp
qed

definition cleanText :: "string \<Rightarrow> string" where
  "cleanText text = (if text = [] then [] else trim (replaceBlankLines (collapseSpaces text)))"

text \<open>
  \<open>Utils.unescapeHtml\<close> assigns the argument to \<open>innerHTML\<close> of a fresh \<open>div\<close> and
  reads \<open>textContent\<close> back. The host's parser first normalises the line ends of its
  input: every pair of carriage return and line feed, and every other carriage return,
  becomes one line feed. On markup without a tag it then yields one text node, whose data
  is the input with the character references decoded, left to right and once each, and
  with every NUL left out. The model decodes the five references that \<open>escapeXml\<close>
  writes.
\<close>

fun normalizeNewlines :: "string \<Rightarrow> string" where
  "normalizeNewlines [] = []"
| "normalizeNewlines [c] = [if c = CHR 0x0D then CHR 0x0A else c]"
| "normalizeNewlines (c # d # cs) =
     (if c = CHR 0x0D \<and> d = CHR 0x0A then CHR 0x0A # normalizeNewlines cs
      else if c = CHR 0x0D then CHR 0x0A # normalizeNewlines (d # cs)
      else c # normalizeNewlines (d # cs))"

fun decodeRefs :: "string \<Rightarrow> string" where
  "decodeRefs [] = []"
| "decodeRefs (c # cs) =
     (if c = CHR ''&'' then
        (if prefix ''amp;'' cs then CHR ''&'' # decodeRefs (drop 4 cs)
         else if prefix ''lt;'' cs then CHR ''<'' # decodeRefs (drop 3 cs)
         else if prefix ''gt;'' cs then CHR ''>'' # decodeRefs (drop 3 cs)
         else if prefix ''quot;'' cs then CHR 0x22 # decodeRefs (drop 5 cs)
         else if prefix ''#39;'' cs then CHR 0x27 # decodeRefs (drop 4 cs)
         else c # decodeRefs cs)
      else c # decodeRefs cs)"

definition unescapeHtml :: "string \<Rightarrow> string" where
  "unescapeHtml html = filter (\<lambda>c. c \<noteq> CHR 0x00) (decodeRefs (normalizeNewlines html))"

section \<open>EpubGenerator: escaping\<close>

text \<open>
  \<open>escapeXml\<close>: the empty string for a falsy argument, else five global replacements
  one after the other, the ampersand first.
\<close>

definition escapeXml :: "string \<Rightarrow> string" where
  "escapeXml text =
     (if text = [] then []
      else replaceAll (CHR 0x27) ''&#39;''
             (replaceAll (CHR 0x22) ''&quot;''
               (replaceAll (CHR ''>'') ''&gt;''
                 (replaceAll (CHR ''<'') ''&lt;''
                   (replaceAll (CHR ''&'') ''&amp;'' text)))))"

text \<open>What the five passes do to one character.\<close>

definition escapeChar :: "char \<Rightarrow> string" where
  "escapeChar c =
     (if c = CHR ''&'' then ''&amp;''
      else if c = CHR ''<'' then ''&lt;''
      else if c = CHR ''>'' then ''&gt;''
      else if c = CHR 0x22 then ''&quot;''
      else if c = CHR 0x27 then ''&#39;''
      else [c])"

section \<open>The DOM\<close>

text \<open>
  The host's document tree. An element has its lower-case local name, its attributes in
  source order and its children. Only what the program observes is modelled:
  \<open>textContent\<close>, \<open>innerHTML\<close>, attributes, and the descendants in document order.
\<close>

datatype node = Text string | Comment string | Element string "(string \<times> string) list" "node list"

fun isElement :: "node \<Rightarrow> bool" where
  "isElement (Element t as cs) = True"
| "isElement n = False"

fun tagName :: "node \<Rightarrow> string" where
  "tagName (Element t as cs) = t"
| "tagName n = []"

fun childNodes :: "node \<Rightarrow> node list" where
  "childNodes (Element t as cs) = cs"
| "childNodes n = []"

fun getAttribute :: "node \<Rightarrow> string \<Rightarrow> string option" where
  "getAttribute (Element t as cs) a = map_of as a"
| "getAttribute n a = None"

text \<open>\<open>element.className\<close> and \<open>element.id\<close>: the attribute, or the empty string.\<close>

definition className :: "node \<Rightarrow> string" where
  "className n = (case getAttribute n ''class'' of Some v \<Rightarrow> v | None \<Rightarrow> [])"

definition elementId :: "node \<Rightarrow> string" where
  "elementId n = (case getAttribute n ''id'' of Some v \<Rightarrow> v | None \<Rightarrow> [])"

text \<open>\<open>element.textContent\<close>: the data of the text nodes below, comments left out.\<close>

fun textContent :: "node \<Rightarrow> string" where
  "textContent (Text t) = t"
| "textContent (Comment c) = []"
| "textContent (Element t as cs) = concat (map textContent cs)"

text \<open>
  Serialisation to markup, as \<open>innerHTML\<close> reads it: text is escaped unless the parent
  is a raw text element, attribute values are escaped and quoted, a void element has no
  end tag.
\<close>

definition escapeTextData :: "string \<Rightarrow> string" where
  "escapeTextData s =
     replaceAll (CHR ''>'') ''&gt;''
       (replaceAll (CHR ''<'') ''&lt;''
         (replaceAll (CHR 0xA0) ''&nbsp;''
           (replaceAll (CHR ''&'') ''&amp;'' s)))"

definition escapeAttrValue :: "string \<Rightarrow> string" where
  "escapeAttrValue s =
     replaceAll (CHR 0x22) ''&quot;''
       (replaceAll (CHR 0xA0) ''&nbsp;''
         (replaceAll (CHR ''&'') ''&amp;'' s))"

definition voidTags :: "string list" where
  "voidTags = [''area'', ''base'', ''basefont'', ''bgsound'', ''br'', ''col'', ''embed'',
     ''frame'', ''hr'', ''img'', ''input'', ''keygen'', ''link'', ''meta'', ''param'',
     ''source'', ''track'', ''wbr'']"

definition rawTextTags :: "string list" where
  "rawTextTags = [''style'', ''script'', ''xmp'', ''iframe'', ''noembed'', ''noframes'',
     ''plaintext'']"

definition serializeAttr :: "string \<times> string \<Rightarrow> string" where
  "serializeAttr av = '' '' @ fst av @ [CHR ''='', CHR 0x22] @ escapeAttrValue (snd av) @ [CHR 0x22]"

fun serialize :: "bool \<Rightarrow> node \<Rightarrow> string" where
  "serialize raw (Text t) = (if raw then t else escapeTextData t)"
| "serialize raw (Comment c) = ''<!--'' @ c @ ''-->''"
| "serialize raw (Element t as cs) =
     ''<'' @ t @ concat (map serializeAttr as) @ ''>'' @
     (if t \<in> set voidTags then []
      else concat (map (serialize (t \<in> set rawTextTags)) cs) @ ''</'' @ t @ ''>'')"

definition innerHTML :: "node \<Rightarrow> string" where
  "innerHTML n =
     (if tagName n \<in> set voidTags then []
      else concat (map (serialize (tagName n \<in> set rawTextTags)) (childNodes n)))"

text \<open>The elements of a subtree in document order, the root first.\<close>

fun elementsOf :: "node \<Rightarrow> node list" where
  "elementsOf (Text t) = []"
| "elementsOf (Comment c) = []"
| "elementsOf (Element t as cs) = Element t as cs # concat (map elementsOf cs)"

definition descendants :: "node \<Rightarrow> node list" where
  "descendants n = concat (map elementsOf (childNodes n))"

text \<open>\<open>document.getElementsByTagName(tag)\<close>, the document given by its root element.\<close>

definition getElementsByTagName :: "node \<Rightarrow> string \<Rightarrow> node list" where
  "getElementsByTagName doc tag = filter (\<lambda>e. tagName e = tag) (elementsOf doc)"

subsection \<open>Selectors\<close>

text \<open>
  The selector strings of the source are written in parsed form: a simple selector
  (\<open>a\<close>, \<open>.ads\<close>, \<open>#chapterlist\<close>, \<open>[href]\<close>, \<open>[property="og:title"]\<close>,
  \<open>[id*="google"]\<close>), a compound (\<open>a[href*="chapter"]\<close>), a chain of compounds under
  the descendant combinator (\<open>.chapter-list a\<close>), and a comma-separated list of chains.
\<close>

datatype simple =
    Tag string | Class string | Id string
  | HasAttr string | AttrIs string string | AttrContains string string

type_synonym compound = "simple list"
type_synonym complex = "compound list"
type_synonym selector = "complex list"

definition isAsciiSpace :: "char \<Rightarrow> bool" where
  "isAsciiSpace c = (c \<in> {CHR 0x09, CHR 0x0A, CHR 0x0C, CHR 0x0D, CHR 0x20})"

fun splitWhere :: "(char \<Rightarrow> bool) \<Rightarrow> string \<Rightarrow> string list" where
  "splitWhere p [] = [[]]"
| "splitWhere p (c # cs) =
     (if p c then [] # splitWhere p cs
      else (case splitWhere p cs of [] \<Rightarrow> [[c]] | w # ws \<Rightarrow> (c # w) # ws))"

definition classList :: "node \<Rightarrow> string list" where
  "classList n = filter (\<lambda>w. w \<noteq> []) (splitWhere isAsciiSpace (className n))"

text \<open>
  Whether an element matches a simple selector, in a document in no-quirks mode: the name
  of a class or id selector is compared as it is written.
\<close>

fun matchesSimple :: "node \<Rightarrow> simple \<Rightarrow> bool" where
  "matchesSimple n (Tag t) = (isElement n \<and> tagName n = t)"
| "matchesSimple n (Class c) = (isElement n \<and> c \<in> set (classList n))"
| "matchesSimple n (Id i) = (isElement n \<and> getAttribute n ''id'' = Some i)"
| "matchesSimple n (HasAttr a) = (getAttribute n a \<noteq> None)"
| "matchesSimple n (AttrIs a v) = (getAttribute n a = Some v)"
| "matchesSimple n (AttrContains a v) =
     (case getAttribute n a of None \<Rightarrow> False | Some x \<Rightarrow> v \<noteq> [] \<and> strIncludes x v)"



definition matchesCompound :: "node \<Rightarrow> compound \<Rightarrow> bool" where
  "matchesCompound n c = list_all (matchesSimple n) c"

text \<open>
  A chain matches an element when its last compound matches the element and the
  compounds before it match ancestors in order, outermost first. The ancestors are
  given from the root down.
\<close>

fun matchesAncestors :: "node list \<Rightarrow> compound list \<Rightarrow> bool" where
  "matchesAncestors ancs [] = True"
| "matchesAncestors [] (c # cs) = False"
| "matchesAncestors (a # ancs) (c # cs) =
     (if matchesCompound a c then matchesAncestors ancs cs
      else matchesAncestors ancs (c # cs))"

definition matchesComplex :: "node list \<Rightarrow> node \<Rightarrow> complex \<Rightarrow> bool" where
  "matchesComplex ancs n cx =
     (cx \<noteq> [] \<and> matchesCompound n (last cx) \<and> matchesAncestors ancs (butlast cx))"

definition matchesSelector :: "node list \<Rightarrow> node \<Rightarrow> selector \<Rightarrow> bool" where
  "matchesSelector ancs n sel = list_ex (matchesComplex ancs n) sel"

fun selectFrom :: "node list \<Rightarrow> selector \<Rightarrow> node \<Rightarrow> node list" where
  "selectFrom ancs sel (Element t as cs) =
     (if matchesSelector ancs (Element t as cs) sel then [Element t as cs] else []) @
     concat (map (selectFrom (ancs @ [Element t as cs]) sel) cs)"
| "selectFrom ancs sel n = []"

text \<open>\<open>document.querySelectorAll(sel)\<close> and \<open>document.querySelector(sel)\<close>\<close>

definition querySelectorAll :: "node \<Rightarrow> selector \<Rightarrow> node list" where
  "querySelectorAll doc sel = selectFrom [] sel doc"

definition querySelector :: "node \<Rightarrow> selector \<Rightarrow> node option" where
  "querySelector doc sel = (case querySelectorAll doc sel of [] \<Rightarrow> None | e # es \<Rightarrow> Some e)"

section \<open>Parser\<close>

subsection \<open>Data\<close>

text \<open>The chapter objects that \<open>extractChapters\<close> pushes; \<open>status\<close> is one of three strings.\<close>

datatype status = Pending | Completed | Errored

record Chapter =
  url :: string
  baseUrl :: string
  title :: string
  index :: nat
  selected :: bool
  status :: status
  content :: "string option"
  error :: "string option"

text \<open>
  What the program throws. \<open>message\<close> is the \<open>error.message\<close> of the source; a failure
  of the host (a rejected \<open>fetch\<close>, an invalid URL) carries the host's message.
\<close>

datatype failure =
    NoChaptersFound
  | FetchFailure "string option"
  | ParseFailure
  | HostFailure string
  | ContentNotFound
  | ContentTooShort
  | PageFetchFailure
  | ParserFailed failure
  | NoChaptersInResult
  | NoChaptersToGenerate
  | GenerationFailed failure
  | UrlMissing
  | UrlInvalid
  | NothingSelected

fun message :: "failure \<Rightarrow> string" where
  "message NoChaptersFound = ''No chapters found on the page''"
| "message (FetchFailure (Some m)) = ''Failed to fetch content: '' @ m"
| "message (FetchFailure None) = ''Failed to fetch content from all proxies''"
| "message ParseFailure = ''Failed to parse HTML content''"
| "message (HostFailure m) = m"
| "message ContentNotFound = ''Could not find chapter content''"
| "message ContentTooShort = ''Extracted content is too short or empty''"
| "message PageFetchFailure =
     ''Failed to fetch content. Please try again later or use a different URL.''"
| "message (ParserFailed e) =
     ''Parser failed: '' @ message e @ ''. Please try a different URL or contact support.''"
| "message NoChaptersInResult =
     ''No chapters found. This might not be a supported novel page.''"
| "message NoChaptersToGenerate = ''No chapters to generate EPUB from''"
| "message (GenerationFailed e) = ''Failed to generate EPUB: '' @ message e"
| "message UrlMissing = ''Please enter a URL''"
| "message UrlInvalid = ''Please enter a valid URL''"
| "message NothingSelected = ''Please select at least one chapter''"

text \<open>
  The host: \<open>new URL(href, base).href\<close> and \<open>new URL(u).hostname\<close>, with \<open>Inl\<close> the
  message of the TypeError they throw on an invalid URL; the parser behind
  \<open>DOMParser.parseFromString\<close>, which returns the root element of the document, and
  behind the assignment to \<open>innerHTML\<close>, which returns the children; and
  \<open>window.location.href\<close>.
\<close>

record host =
  urlHref :: "string \<Rightarrow> string \<Rightarrow> string + string"
  urlHostname :: "string \<Rightarrow> string + string"
  parseFromString :: "string \<Rightarrow> node"
  parseFragment :: "string \<Rightarrow> node list"
  location :: string

record rules =
  titleSelector :: selector
  authorSelector :: selector
  chapterSelectors :: "selector list"
  contentSelector :: selector

definition descendantOf :: "simple \<Rightarrow> simple \<Rightarrow> complex" where
  "descendantOf a b = [[a], [b]]"

definition siteSpecificRules :: "string \<Rightarrow> rules option" where
  "siteSpecificRules hostname =
     (if hostname = ''wuxiaworld.com'' then Some
        \<lparr>titleSelector = [[[Class ''novel-title'']]],
         authorSelector = [[[Class ''author'']]],
         chapterSelectors = [[descendantOf (Class ''chapter-item'') (Tag ''a'')],
                             [descendantOf (Class ''wp-manga-chapter'') (Tag ''a'')]],
         contentSelector = [[[Class ''chapter-content'']]]\<rparr>
      else if hostname = ''royalroad.com'' then Some
        \<lparr>titleSelector = [descendantOf (Class ''fic-title'') (Tag ''h1'')],
         authorSelector = [[[Class ''author-name'']]],
         chapterSelectors = [[descendantOf (Class ''chapter-row'') (Tag ''a'')]],
         contentSelector = [[[Class ''chapter-content'']]]\<rparr>
      else if hostname = ''novelupdates.com'' then Some
        \<lparr>titleSelector = [[[Class ''seriestitlenu'']]],
         authorSelector = [[[Id ''showauthors'']]],
         chapterSelectors = [[descendantOf (Id ''chapterlist'') (Tag ''a'')]],
         contentSelector = [[[Class ''chapter-content'']]]\<rparr>
      else None)"

definition getDefaultRules :: rules where
  "getDefaultRules =
     \<lparr>titleSelector = [[[Tag ''h1'']], [[Class ''title'']], [[Class ''novel-title'']],
                        [[Class ''story-title'']], [[AttrIs ''property'' ''og:title'']],
                        [[Tag ''title'']]],
      authorSelector = [[[Class ''author'']], [[Class ''novel-author'']],
                        [[Class ''story-author'']], [[AttrIs ''property'' ''article:author'']],
                        [[Tag ''a'', AttrContains ''href'' ''author'']]],
      chapterSelectors = [[descendantOf (Class ''chapter-list'') (Tag ''a'')],
                          [descendantOf (Class ''chapters'') (Tag ''a'')],
                          [[[Tag ''a'', AttrContains ''href'' ''chapter'']]],
                          [[[Class ''chapter-link'']]],
                          [descendantOf (Class ''novel-chapter'') (Tag ''a'')],
                          [descendantOf (Class ''story-chapter'') (Tag ''a'')]],
      contentSelector = [[[Class ''chapter-content'']], [[Class ''entry-content'']],
                         [[Tag ''article'']], [[Class ''post-content'']], [[Class ''content'']]]\<rparr>"

text \<open>\<open>hostname.replace('www.', '')\<close>: the first occurrence only.\<close>

fun replaceFirst :: "string \<Rightarrow> string \<Rightarrow> string \<Rightarrow> string" where
  "replaceFirst p r [] = (if p = [] then r else [])"
| "replaceFirst p r (c # cs) =
     (if prefix p (c # cs) then r @ drop (length p) (c # cs) else c # replaceFirst p r cs)"

definition rulesFor :: "string \<Rightarrow> rules" where
  "rulesFor hostname =
     (case siteSpecificRules (replaceFirst ''www.'' [] hostname) of
        Some r \<Rightarrow> r | None \<Rightarrow> getDefaultRules)"

subsection \<open>resolveUrl\<close>

definition resolveUrl :: "host \<Rightarrow> string \<Rightarrow> string \<Rightarrow> string" where
  "resolveUrl h href base = (case urlHref h href base of Inr u \<Rightarrow> u | Inl e \<Rightarrow> href)"

subsection \<open>extractChapters\<close>

text \<open>The loop over a list of selectors that stops at the first one with a match.\<close>

fun firstMatching :: "node \<Rightarrow> selector list \<Rightarrow> node list" where
  "firstMatching doc [] = []"
| "firstMatching doc (s # ss) =
     (case querySelectorAll doc s of [] \<Rightarrow> firstMatching doc ss | l # ls \<Rightarrow> l # ls)"

text \<open>
  The tests of the aggressive scan. A regular expression \<open>/word\s*\d+/i\<close> matches when
  somewhere the word stands, in either case, followed by optional white space and a
  digit; \<open>/word\d+/i\<close> and \<open>/word-\d+/i\<close> alike.
\<close>

fun existsSuffix :: "(string \<Rightarrow> bool) \<Rightarrow> string \<Rightarrow> bool" where
  "existsSuffix p [] = p []"
| "existsSuffix p (c # cs) = (p (c # cs) \<or> existsSuffix p cs)"

definition startsDigit :: "string \<Rightarrow> bool" where
  "startsDigit s = (case s of [] \<Rightarrow> False | c # cs \<Rightarrow> isDigit c)"

definition matchWordThen :: "string \<Rightarrow> (string \<Rightarrow> bool) \<Rightarrow> string \<Rightarrow> bool" where
  "matchWordThen w rest s =
     existsSuffix (\<lambda>t. prefix w (toLowerCase t) \<and> rest (drop (length w) t)) s"

definition isChapterLink :: "node \<Rightarrow> bool" where
  "isChapterLink link =
     (case getAttribute link ''href'' of
        None \<Rightarrow> False
      | Some href \<Rightarrow>
          (let text = toLowerCase (textContent link)
           in href \<noteq> [] \<and>
              (strIncludes text ''chapter'' \<or>
               strIncludes text ''ch.'' \<or>
               matchWordThen ''ch'' (\<lambda>t. startsDigit (dropWhile isSpace t)) text \<or>
               matchWordThen ''chapter'' (\<lambda>t. startsDigit (dropWhile isSpace t)) text \<or>
               strIncludes href ''chapter'' \<or>
               matchWordThen ''ch'' startsDigit href \<or>
               matchWordThen ''chapter'' (\<lambda>t. prefix ''-'' t \<and> startsDigit (drop 1 t)) href)))"

text \<open>The three strategies, each tried only when the one before found nothing.\<close>

definition siteLinks :: "node \<Rightarrow> rules \<Rightarrow> node list" where
  "siteLinks doc siteRules = firstMatching doc (chapterSelectors siteRules)"

definition defaultLinks :: "node \<Rightarrow> node list" where
  "defaultLinks doc = firstMatching doc (chapterSelectors getDefaultRules)"

definition aggressiveLinks :: "node \<Rightarrow> node list" where
  "aggressiveLinks doc = filter isChapterLink (querySelectorAll doc [[[Tag ''a'', HasAttr ''href'']]])"

definition allChapterLinks :: "node \<Rightarrow> rules \<Rightarrow> node list" where
  "allChapterLinks doc siteRules =
     (if siteLinks doc siteRules \<noteq> [] then siteLinks doc siteRules
      else if defaultLinks doc \<noteq> [] then defaultLinks doc
      else aggressiveLinks doc)"

text \<open>
  The \<open>forEach\<close> over the links with their positions; \<open>processedUrls\<close> is the set of the
  URLs pushed so far.
\<close>

definition newChapter :: "string \<Rightarrow> string \<Rightarrow> node \<Rightarrow> nat \<Rightarrow> Chapter" where
  "newChapter absoluteUrl base link i =
     \<lparr>url = absoluteUrl, baseUrl = base,
      title = (if cleanText (textContent link) = [] then ''Chapter '' @ showNat (i + 1)
               else cleanText (textContent link)),
      index = i, selected = True, status = Pending, content = None, error = None\<rparr>"

fun processLinks :: "host \<Rightarrow> string \<Rightarrow> (nat \<times> node) list \<Rightarrow> string set \<Rightarrow> Chapter list" where
  "processLinks h base [] processedUrls = []"
| "processLinks h base ((i, link) # links) processedUrls =
     (case getAttribute link ''href'' of
        None \<Rightarrow> processLinks h base links processedUrls
      | Some href \<Rightarrow>
          if href = [] then processLinks h base links processedUrls
          else if resolveUrl h href base \<in> processedUrls
          then processLinks h base links processedUrls
          else newChapter (resolveUrl h href base) base link i
               # processLinks h base links (insert (resolveUrl h href base) processedUrls))"

text \<open>The comparison function given to \<open>sort\<close>.\<close>

definition compareChapters :: "Chapter \<Rightarrow> Chapter \<Rightarrow> int" where
  "compareChapters a b =
     (case (matchDigits (title a), matchDigits (title b)) of
        (Some x, Some y) \<Rightarrow> numberDifference (parseInt x) (parseInt y)
      | _ \<Rightarrow> int (index a) - int (index b))"

text \<open>
  \<open>Array.prototype.sort\<close> is a stable sort. When the comparison function is a consistent
  order, the result is the one stable sorted arrangement, and insertion from the right
  computes it. When it is not, the standard leaves the arrangement to the implementation;
  the model then still returns what this insertion sort returns.
\<close>

fun insertBy :: "('a \<Rightarrow> 'a \<Rightarrow> int) \<Rightarrow> 'a \<Rightarrow> 'a list \<Rightarrow> 'a list" where
  "insertBy cmp x [] = [x]"
| "insertBy cmp x (y # ys) = (if cmp x y \<le> 0 then x # y # ys else y # insertBy cmp x ys)"

definition sortBy :: "('a \<Rightarrow> 'a \<Rightarrow> int) \<Rightarrow> 'a list \<Rightarrow> 'a list" where
  "sortBy cmp xs = foldr (insertBy cmp) xs []"

definition extractChapters :: "host \<Rightarrow> node \<Rightarrow> string \<Rightarrow> rules \<Rightarrow> failure + Chapter list" where
  "extractChapters h doc base siteRules =
     (if allChapterLinks doc siteRules = [] then Inl NoChaptersFound
      else Inr (sortBy compareChapters
                  (processLinks h base (List.enumerate 0 (allChapterLinks doc siteRules)) {})))"

subsection \<open>findLargestTextBlock\<close>

definition contentTags :: "string list" where
  "contentTags = [''article'', ''div'', ''section'', ''main'']"

definition skipPatterns :: "string list" where
  "skipPatterns = [''header'', ''footer'', ''sidebar'', ''menu'', ''nav'', ''comment'',
     ''advertisement'', ''breadcrumb'', ''pagination'', ''social'']"

text \<open>
  \<open>text.length / html.length > 0.5\<close>. The quotient of two lengths is a double; the
  comparison with one half is exact for lengths below \<open>2^53\<close>. An empty \<open>innerHTML\<close>
  gives NaN for an empty text, which fails the test, and infinity otherwise.
\<close>

definition textDensityHigh :: "nat \<Rightarrow> nat \<Rightarrow> bool" where
  "textDensityHigh textLength htmlLength =
     (if htmlLength = 0 then 0 < textLength
      else real textLength / real htmlLength > 0.5)"

definition isLikelyContent :: "node \<Rightarrow> bool" where
  "isLikelyContent element =
     (if list_ex (\<lambda>pattern. strIncludes (toLowerCase (className element)) pattern \<or>
                             strIncludes (toLowerCase (elementId element)) pattern) skipPatterns
      then False
      else textDensityHigh (length (trim (textContent element))) (length (innerHTML element)))"

text \<open>The body of the inner loop, on the pair of \<open>maxLength\<close> and \<open>bestElement\<close>.\<close>

definition considerBlock :: "nat \<times> node option \<Rightarrow> node \<Rightarrow> nat \<times> node option" where
  "considerBlock st element =
     (if isLikelyContent element \<and> length (trim (textContent element)) > fst st
      then (length (trim (textContent element)), Some element)
      else st)"

definition findLargestTextBlock :: "node \<Rightarrow> node option" where
  "findLargestTextBlock doc =
     snd (foldl (\<lambda>st tag. foldl considerBlock st (getElementsByTagName doc tag))
            (0, None) contentTags)"

subsection \<open>Cleaning a content element\<close>

text \<open>
  \<open>root.querySelectorAll(selector).forEach(el => el.remove())\<close>, for a test on the
  element alone: every descendant that passes the test goes, with its subtree.
\<close>

fun removeWhere :: "(node \<Rightarrow> bool) \<Rightarrow> node \<Rightarrow> node" where
  "removeWhere p (Element t as cs) =
     Element t as (map (removeWhere p) (filter (\<lambda>c. \<not> (isElement c \<and> p c)) cs))"
| "removeWhere p n = n"

definition removeSelectors :: "simple list \<Rightarrow> node \<Rightarrow> node" where
  "removeSelectors sels elem = foldl (\<lambda>n sel. removeWhere (\<lambda>e. matchesSimple e sel) n) elem sels"

definition unwantedSelectors :: "simple list" where
  "unwantedSelectors =
     [Tag ''script'', Tag ''style'', Tag ''iframe'', Tag ''form'', Tag ''button'', Tag ''input'',
      Class ''advertisement'', Class ''ads'', Class ''social-share'', Class ''comments'',
      AttrContains ''id'' ''google'', AttrContains ''class'' ''google'',
      AttrContains ''id'' ''ad-'', AttrContains ''class'' ''ad-'',
      AttrContains ''id'' ''share'', AttrContains ''class'' ''share'']"

definition novelSiteSelectors :: "simple list" where
  "novelSiteSelectors =
     [Class ''chapter-nav'', Class ''chapter-navigation'', Class ''prev-chapter'',
      Class ''next-chapter'', Class ''chapter-buttons'', Class ''rating'',
      Class ''comments-section'', Class ''author-note'',
      AttrContains ''id'' ''comment'', AttrContains ''class'' ''comment'']"

text \<open>
  The test of the clean-up pass over \<open>querySelectorAll('*')\<close>:
  \<open>!el.textContent.trim() && !el.querySelector('img')\<close>. The pass visits the elements
  in document order, so an element is tested before anything below it has been removed.
\<close>

definition isEmptyElement :: "node \<Rightarrow> bool" where
  "isEmptyElement el =
     (trim (textContent el) = [] \<and> \<not> list_ex (\<lambda>d. tagName d = ''img'') (descendants el))"

definition removeEmptyElements :: "node \<Rightarrow> node" where
  "removeEmptyElements elem = removeWhere isEmptyElement elem"

text \<open>\<open>removeUnwantedElements\<close> works on the element in the document.\<close>

definition removeUnwantedElements :: "node \<Rightarrow> node" where
  "removeUnwantedElements element =
     removeEmptyElements (removeSelectors (unwantedSelectors @ novelSiteSelectors) element)"

text \<open>The tree walker over the text nodes: \<open>replace(/\s+/g, ' ').trim()\<close> on each.\<close>

fun cleanTextNodes :: "node \<Rightarrow> node" where
  "cleanTextNodes (Text t) = Text (trim (collapseSpaces t))"
| "cleanTextNodes (Comment c) = Comment c"
| "cleanTextNodes (Element t as cs) = Element t as (map cleanTextNodes cs)"

text \<open>
  A \<open>div\<close> without a \<open>div\<close>, \<open>p\<close>, \<open>img\<close> or \<open>table\<close> below it is replaced by a fresh
  \<open>p\<close> that takes over its \<open>innerHTML\<close>; the children are kept as they are, reading the
  markup back being taken to return them. The \<open>div\<close>s are visited in document order, an
  outer one before the inner ones.
\<close>

definition hasBlockInside :: "node \<Rightarrow> bool" where
  "hasBlockInside el =
     list_ex (\<lambda>d. tagName d \<in> {''div'', ''p'', ''img'', ''table''}) (descendants el)"

fun divToParagraph :: "node \<Rightarrow> node" where
  "divToParagraph (Element t as cs) =
     (if t = ''div'' \<and> \<not> hasBlockInside (Element t as cs) then Element ''p'' [] cs
      else Element t as (map divToParagraph cs))"
| "divToParagraph n = n"

definition convertDivs :: "node \<Rightarrow> node" where
  "convertDivs elem =
     (case elem of Element t as cs \<Rightarrow> Element t as (map divToParagraph cs) | n \<Rightarrow> n)"

text \<open>The text nodes among the children of the root are wrapped in paragraphs.\<close>

fun wrapText :: "node \<Rightarrow> node" where
  "wrapText (Text t) = (if trim t \<noteq> [] then Element ''p'' [] [Text (trim t)] else Text t)"
| "wrapText n = n"

definition wrapTopLevelText :: "node \<Rightarrow> node" where
  "wrapTopLevelText elem =
     (case elem of Element t as cs \<Rightarrow> Element t as (map wrapText cs) | n \<Rightarrow> n)"

subsection \<open>extractContent\<close>

definition normalizeContent :: "node \<Rightarrow> node" where
  "normalizeContent element =
     removeEmptyElements
       (wrapTopLevelText
         (convertDivs
           (cleanTextNodes
             (removeSelectors unwantedSelectors element))))"

definition extractContent :: "node option \<Rightarrow> string" where
  "extractContent element =
     (case element of None \<Rightarrow> [] | Some e \<Rightarrow> innerHTML (normalizeContent e))"

subsection \<open>fetchChapterContent\<close>

text \<open>
  What one proxy answers: the \<open>fetch\<close> or the reading of the body throws, or the
  response is not ok, or there is a body, which may be empty.
\<close>

datatype response = Threw string | Status nat | Body string

text \<open>The loop over the proxies, on \<open>html\<close> and \<open>lastError\<close>.\<close>

fun tryProxies :: "response list \<Rightarrow> string option \<Rightarrow> string option \<Rightarrow> string option \<times> string option" where
  "tryProxies [] html lastError = (html, lastError)"
| "tryProxies (Threw m # rs) html lastError = tryProxies rs html (Some m)"
| "tryProxies (Status n # rs) html lastError =
     tryProxies rs html (Some (''HTTP error! status: '' @ showNat n))"
| "tryProxies (Body b # rs) html lastError =
     (if b \<noteq> [] then (Some b, lastError) else tryProxies rs (Some b) lastError)"

definition fetchHtml :: "response list \<Rightarrow> failure + string" where
  "fetchHtml responses =
     (case tryProxies responses None None of
        (Some html, lastError) \<Rightarrow> if html \<noteq> [] then Inr html else Inl (FetchFailure lastError)
      | (None, lastError) \<Rightarrow> Inl (FetchFailure lastError))"

text \<open>\<open>Utils.parseHTML\<close>\<close>

definition parseHTML :: "host \<Rightarrow> string \<Rightarrow> failure + node" where
  "parseHTML h html =
     (case querySelector (parseFromString h html) [[[Tag ''parsererror'']]] of
        Some e \<Rightarrow> Inl ParseFailure
      | None \<Rightarrow> Inr (parseFromString h html))"

text \<open>The choice of the content element: the site's selector, the default ones, the largest block.\<close>

fun firstFound :: "node \<Rightarrow> selector list \<Rightarrow> node option" where
  "firstFound doc [] = None"
| "firstFound doc (s # ss) =
     (case querySelector doc s of Some e \<Rightarrow> Some e | None \<Rightarrow> firstFound doc ss)"

definition findContentElement :: "node \<Rightarrow> rules \<Rightarrow> node option" where
  "findContentElement doc siteRules =
     (case (if contentSelector siteRules \<noteq> [] then querySelector doc (contentSelector siteRules)
            else None) of
        Some e \<Rightarrow> Some e
      | None \<Rightarrow>
          (case firstFound doc (map (\<lambda>s. [s]) (contentSelector getDefaultRules)) of
             Some e \<Rightarrow> Some e
           | None \<Rightarrow> findLargestTextBlock doc))"

text \<open>What follows the fetch in the \<open>try\<close> block.\<close>

definition extractFromPage :: "host \<Rightarrow> string \<Rightarrow> string \<Rightarrow> failure + string" where
  "extractFromPage h absoluteUrl html =
     (case parseHTML h html of
        Inl e \<Rightarrow> Inl e
      | Inr doc \<Rightarrow>
          (case urlHostname h absoluteUrl of
             Inl m \<Rightarrow> Inl (HostFailure m)
           | Inr hostname \<Rightarrow>
               (case findContentElement doc (rulesFor hostname) of
                  None \<Rightarrow> Inl ContentNotFound
                | Some contentElement \<Rightarrow>
                    (let content = extractContent (Some (removeUnwantedElements contentElement))
                     in if content = [] \<or> length (trim content) < 100 then Inl ContentTooShort
                        else Inr content))))"

definition attemptChapter :: "host \<Rightarrow> response list \<Rightarrow> Chapter \<Rightarrow> failure + string" where
  "attemptChapter h responses chapter =
     (case fetchHtml responses of
        Inl e \<Rightarrow> Inl e
      | Inr html \<Rightarrow> extractFromPage h (resolveUrl h (url chapter) (baseUrl chapter)) html)"

text \<open>
  The retry loop. The answers of the proxies are given for each attempt; the trace
  records the attempts and the calls of \<open>Utils.sleep\<close> in order. The writes of
  \<open>updateChapterUI\<close> to the page are not part of the model.
\<close>

datatype event = Attempt nat | Sleep nat

definition maxRetries :: nat where
  "maxRetries = 3"

record outcome =
  thrown :: "failure option"
  chapterAfter :: Chapter
  trace :: "event list"

function fetchChapterLoop :: "host \<Rightarrow> (nat \<Rightarrow> response list) \<Rightarrow> Chapter \<Rightarrow> nat \<Rightarrow> outcome" where
  "fetchChapterLoop h answers chapter retryCount =
     (if retryCount < maxRetries then
        (case attemptChapter h (answers retryCount) chapter of
           Inr c \<Rightarrow>
             \<lparr>thrown = None,
              chapterAfter = chapter\<lparr>content := Some c, status := Completed\<rparr>,
              trace = [Attempt retryCount, Sleep 1000]\<rparr>
         | Inl e \<Rightarrow>
             if retryCount + 1 \<ge> maxRetries then
               \<lparr>thrown = Some e,
                chapterAfter = chapter\<lparr>status := Errored, error := Some (message e)\<rparr>,
                trace = [Attempt retryCount]\<rparr>
             else
               (let rest = fetchChapterLoop h answers chapter (retryCount + 1)
                in rest\<lparr>trace := Attempt retryCount # Sleep (2000 * (retryCount + 1)) # trace rest\<rparr>))
      else \<lparr>thrown = None, chapterAfter = chapter, trace = []\<rparr>)"
  by pat_completeness auto
termination
  by (relation "measure (\<lambda>(h, answers, chapter, retryCount). maxRetries - retryCount)") auto

declare fetchChapterLoop.simps [simp del]

definition fetchChapterContent :: "host \<Rightarrow> (nat \<Rightarrow> response list) \<Rightarrow> Chapter \<Rightarrow> outcome" where
  "fetchChapterContent h answers chapter = fetchChapterLoop h answers chapter 0"

subsection \<open>parsePage\<close>

text \<open>
  The loop over the proxies of \<open>parsePage\<close> keeps the first body that is not empty. The
  extraction of the metadata, between the parsing and \<open>extractChapters\<close>, throws nothing
  and is left out; the result is the list of chapters.
\<close>

fun pageHtml :: "response list \<Rightarrow> string option" where
  "pageHtml [] = None"
| "pageHtml (Body b # rs) = (if b \<noteq> [] then Some b else pageHtml rs)"
| "pageHtml (r # rs) = pageHtml rs"

definition parsePage :: "host \<Rightarrow> response list \<Rightarrow> string \<Rightarrow> failure + Chapter list" where
  "parsePage h responses pageUrl =
     (case pageHtml responses of
        None \<Rightarrow> Inl (ParserFailed PageFetchFailure)
      | Some html \<Rightarrow>
          (case parseHTML h html of
             Inl e \<Rightarrow> Inl (ParserFailed e)
           | Inr doc \<Rightarrow>
               (case urlHostname h pageUrl of
                  Inl m \<Rightarrow> Inl (ParserFailed (HostFailure m))
                | Inr hostname \<Rightarrow>
                    (case extractChapters h doc pageUrl (rulesFor hostname) of
                       Inl e \<Rightarrow> Inl (ParserFailed e)
                     | Inr chapters \<Rightarrow> Inr chapters))))"

section \<open>EpubGenerator\<close>

record MetaInfo =
  metaTitle :: string
  metaAuthor :: string
  metaLanguage :: string
  metaDescription :: string
  metaSubject :: string
  coverImageUrl :: string

text \<open>
  What a run of the generator takes from outside: the time stamp, the identifier drawn
  by \<open>Utils.generateUUID\<close>, and the bytes of the cover image when the download and the
  decoding succeed. The archive is a map from entry names to contents.
\<close>

record epubEnv =
  now :: string
  bookIdentifier :: string
  coverBytes :: "string option"

type_synonym zip = "string \<rightharpoonup> string"

definition containerXml :: string where
  \<open>containerXml =
     ''<?xml version="1.0" encoding="UTF-8"?>\<newline>'' @
     ''<container version="1.0" xmlns="urn:oasis:names:tc:opendocument:xmlns:container">\<newline>'' @
     ''    <rootfiles>\<newline>'' @
     ''        <rootfile full-path="OEBPS/content.opf" media-type="application/oebps-package+xml"/>\<newline>'' @
     ''    </rootfiles>\<newline>'' @
     ''</container>''\<close>

text \<open>\<open>createEpubStructure\<close>; the two folders are entries without content of their own.\<close>

definition createEpubStructure :: "zip \<Rightarrow> zip" where
  "createEpubStructure z =
     (z(''META-INF/'' \<mapsto> [], ''OEBPS/'' \<mapsto> []))(''META-INF/container.xml'' \<mapsto> containerXml)"

text \<open>The entries that \<open>addMetadata\<close> writes for the chapter at position \<open>i\<close>, counted from 0.\<close>

definition manifestItem :: "nat \<Rightarrow> string" where
  \<open>manifestItem i =
     ''<item id="chapter-'' @ showNat (i + 1) @ ''" href="chapter-'' @ showNat (i + 1) @
     ''.xhtml" media-type="application/xhtml+xml"/>''\<close>

definition spineItem :: "nat \<Rightarrow> string" where
  \<open>spineItem i = ''<itemref idref="chapter-'' @ showNat (i + 1) @ ''"/>''\<close>

definition navPoint :: "nat \<Rightarrow> Chapter \<Rightarrow> string" where
  \<open>navPoint i chapter =
     ''\<newline>        <navPoint id="nav-'' @ showNat (i + 1) @ ''" playOrder="'' @ showNat (i + 1) @ ''">\<newline>'' @
     ''            <navLabel>\<newline>'' @
     ''                <text>'' @ escapeXml (title chapter) @ ''</text>\<newline>'' @
     ''            </navLabel>\<newline>'' @
     ''            <content src="chapter-'' @ showNat (i + 1) @ ''.xhtml"/>\<newline>'' @
     ''        </navPoint>''\<close>

definition manifestItems :: "Chapter list \<Rightarrow> string list" where
  "manifestItems chapters = map (\<lambda>(i, chapter). manifestItem i) (List.enumerate 0 chapters)"

definition spineItems :: "Chapter list \<Rightarrow> string list" where
  "spineItems chapters = map (\<lambda>(i, chapter). spineItem i) (List.enumerate 0 chapters)"

definition navPoints :: "Chapter list \<Rightarrow> string list" where
  "navPoints chapters = map (\<lambda>(i, chapter). navPoint i chapter) (List.enumerate 0 chapters)"

text \<open>The package document, in its three parts, and the navigation document.\<close>

definition opfMetadata :: "epubEnv \<Rightarrow> MetaInfo \<Rightarrow> string" where
  \<open>opfMetadata env metaInfo =
     ''<?xml version="1.0" encoding="UTF-8"?>\<newline>'' @
     ''<package version="3.0" xmlns="http://www.idpf.org/2007/opf" unique-identifier="BookId">\<newline>'' @
     ''    <metadata xmlns:dc="http://purl.org/dc/elements/1.1/" xmlns:opf="http://www.idpf.org/2007/opf">\<newline>'' @
     ''        <dc:identifier id="BookId">urn:uuid:'' @ bookIdentifier env @ ''</dc:identifier>\<newline>'' @
     ''        <dc:title>'' @ escapeXml (metaTitle metaInfo) @ ''</dc:title>\<newline>'' @
     ''        <dc:creator>'' @ escapeXml (metaAuthor metaInfo) @ ''</dc:creator>\<newline>'' @
     ''        <dc:language>'' @ metaLanguage metaInfo @ ''</dc:language>\<newline>'' @
     ''        <dc:date>'' @ now env @ ''</dc:date>\<newline>'' @
     ''        <dc:publisher>WebToEpub</dc:publisher>\<newline>'' @
     ''        <dc:description>'' @ escapeXml (metaDescription metaInfo) @ ''</dc:description>\<newline>'' @
     ''        <dc:subject>'' @ escapeXml (metaSubject metaInfo) @ ''</dc:subject>\<newline>'' @
     ''        <meta property="dcterms:modified">'' @ now env @ ''</meta>\<newline>'' @
     ''        '' @ (if coverImageUrl metaInfo \<noteq> [] then ''<meta name="cover" content="cover-image"/>'' else []) @ ''\<newline>'' @
     ''    </metadata>\<newline>''\<close>

definition opfManifest :: "MetaInfo \<Rightarrow> Chapter list \<Rightarrow> string" where
  \<open>opfManifest metaInfo chapters =
     ''    <manifest>\<newline>'' @
     ''        <item id="ncx" href="toc.ncx" media-type="application/x-dtbncx+xml"/>\<newline>'' @
     ''        <item id="css" href="style.css" media-type="text/css"/>\<newline>'' @
     ''        '' @ (if coverImageUrl metaInfo \<noteq> []
                    then ''<item id="cover-image" href="cover.jpg" media-type="image/jpeg"/>'' else []) @ ''\<newline>'' @
     ''        '' @ join ''\<newline>        '' (manifestItems chapters) @ ''\<newline>'' @
     ''    </manifest>\<newline>''\<close>

definition opfSpine :: "Chapter list \<Rightarrow> string" where
  \<open>opfSpine chapters =
     ''    <spine toc="ncx">\<newline>'' @
     ''        '' @ join ''\<newline>        '' (spineItems chapters) @ ''\<newline>'' @
     ''    </spine>\<newline>''\<close>

definition contentOpf :: "epubEnv \<Rightarrow> MetaInfo \<Rightarrow> Chapter list \<Rightarrow> string" where
  "contentOpf env metaInfo chapters =
     opfMetadata env metaInfo @ opfManifest metaInfo chapters @ opfSpine chapters @ ''</package>''"

definition ncxHead :: "epubEnv \<Rightarrow> MetaInfo \<Rightarrow> string" where
  \<open>ncxHead env metaInfo =
     ''<?xml version="1.0" encoding="UTF-8"?>\<newline>'' @
     ''<ncx xmlns="http://www.daisy.org/z3986/2005/ncx/" version="2005-1" xml:lang="en">\<newline>'' @
     ''    <head>\<newline>'' @
     ''        <meta name="dtb:uid" content="'' @ bookIdentifier env @ ''"/>\<newline>'' @
     ''        <meta name="dtb:depth" content="1"/>\<newline>'' @
     ''        <meta name="dtb:totalPageCount" content="0"/>\<newline>'' @
     ''        <meta name="dtb:maxPageNumber" content="0"/>\<newline>'' @
     ''    </head>\<newline>'' @
     ''    <docTitle>\<newline>'' @
     ''        <text>'' @ escapeXml (metaTitle metaInfo) @ ''</text>\<newline>'' @
     ''    </docTitle>\<newline>''\<close>

definition ncxNavMap :: "Chapter list \<Rightarrow> string" where
  \<open>ncxNavMap chapters =
     ''    <navMap>\<newline>'' @
     ''        '' @ join ''\<newline>        '' (navPoints chapters) @ ''\<newline>'' @
     ''    </navMap>\<newline>''\<close>

definition tocNcx :: "epubEnv \<Rightarrow> MetaInfo \<Rightarrow> Chapter list \<Rightarrow> string" where
  "tocNcx env metaInfo chapters = ncxHead env metaInfo @ ncxNavMap chapters @ ''</ncx>''"

definition styleCss :: string where
  \<open>styleCss =
     ''body {\<newline>    font-family: Georgia, serif;\<newline>    line-height: 1.6;\<newline>    margin: 2em;\<newline>    text-align: justify;\<newline>}\<newline>\<newline>'' @
     ''h1, h2, h3 {\<newline>    color: #333;\<newline>    margin-top: 2em;\<newline>    margin-bottom: 1em;\<newline>}\<newline>\<newline>'' @
     ''h1 {\<newline>    font-size: 1.8em;\<newline>    text-align: center;\<newline>    border-bottom: 2px solid #333;\<newline>    padding-bottom: 0.5em;\<newline>}\<newline>\<newline>'' @
     ''h2 {\<newline>    font-size: 1.4em;\<newline>}\<newline>\<newline>'' @
     ''p {\<newline>    margin-bottom: 1em;\<newline>    text-indent: 2em;\<newline>}\<newline>\<newline>'' @
     ''img {\<newline>    max-width: 100%;\<newline>    height: auto;\<newline>    display: block;\<newline>    margin: 1em auto;\<newline>}\<newline>\<newline>'' @
     ''blockquote {\<newline>    margin: 1em 0;\<newline>    padding: 0.5em 1em;\<newline>    border-left: 4px solid #ccc;\<newline>    background: #f9f9f9;\<newline>}\<newline>\<newline>'' @
     ''hr {\<newline>    border: none;\<newline>    border-top: 1px solid #ccc;\<newline>    margin: 2em 0;\<newline>}''\<close>

definition addMetadata :: "epubEnv \<Rightarrow> MetaInfo \<Rightarrow> Chapter list \<Rightarrow> zip \<Rightarrow> zip" where
  "addMetadata env metaInfo chapters z =
     z(''OEBPS/content.opf'' \<mapsto> contentOpf env metaInfo chapters,
       ''OEBPS/toc.ncx'' \<mapsto> tocNcx env metaInfo chapters,
       ''OEBPS/style.css'' \<mapsto> styleCss)"

subsection \<open>processChapterContent\<close>

text \<open>
  The replacements on the serialised markup. \<open>voidTagMatch tag s\<close> is the number of
  characters that \<open>/<tag\s*\/?>/i\<close> takes after the opening angle bracket, when it
  matches there.
\<close>

definition voidTagMatch :: "string \<Rightarrow> string \<Rightarrow> nat option" where
  "voidTagMatch tag s =
     (if prefix tag (toLowerCase s) then
        (let afterTag = drop (length tag) s;
             spaces = length (takeWhile isSpace afterTag);
             afterSpaces = dropWhile isSpace afterTag;
             slash = (if prefix ''/'' afterSpaces then 1 else 0)
         in if prefix ''>'' (drop slash afterSpaces)
            then Some (length tag + spaces + slash + 1) else None)
      else None)"

fun closeVoidTag :: "string \<Rightarrow> string \<Rightarrow> string" where
  "closeVoidTag tag [] = []"
| "closeVoidTag tag (c # cs) =
     (if c = CHR ''<'' then
        (case voidTagMatch tag cs of
           Some n \<Rightarrow> ''<'' @ tag @ ''/>'' @ closeVoidTag tag (drop n cs)
         | None \<Rightarrow> c # closeVoidTag tag cs)
      else c # closeVoidTag tag cs)"

text \<open>
  \<open>replace(/<img([^>]*)\s*\/?>/gi, '<img$1/>')\<close>: the group takes everything up to the
  next closing angle bracket.
\<close>

function closeImgTags :: "string \<Rightarrow> string" where
  "closeImgTags [] = []"
| "closeImgTags (c # cs) =
     (if c = CHR ''<'' \<and> prefix ''img'' (toLowerCase cs) \<and>
         prefix ''>'' (dropWhile (\<lambda>x. x \<noteq> CHR ''>'') (drop 3 cs))
      then ''<img'' @ takeWhile (\<lambda>x. x \<noteq> CHR ''>'') (drop 3 cs) @ ''/>'' @
           closeImgTags (drop 1 (dropWhile (\<lambda>x. x \<noteq> CHR ''>'') (drop 3 cs)))
      else c # closeImgTags cs)"
  by pat_completeness auto
termination
proof (relation "measure length", goal_cases)
  case 1
  show ?case by simp
next
  case (2 c cs)
  have "length (dropWhile (\<lambda>x. x \<noteq> CHR ''>'') (drop 3 cs)) \<le> length (drop 3 cs)"
    by (rule length_dropWhile_le)
  then show ?case by simp
next
  case 3
  then show ?case by simp
qed

fun replaceNbsp :: "string \<Rightarrow> string" where
  "replaceNbsp [] = []"
| "replaceNbsp (c # cs) =
     (if c = CHR ''&'' \<and> prefix ''nbsp;'' cs then CHR '' '' # replaceNbsp (drop 5 cs)
      else c # replaceNbsp cs)"

text \<open>\<open>s.split(/\n\s*\n/)\<close>\<close>

function splitBlankLines :: "string \<Rightarrow> string list" where
  "splitBlankLines [] = [[]]"
| "splitBlankLines (c # cs) =
     (if c = CHR 0x0A \<and> CHR 0x0A \<in> set (takeWhile isSpace cs)
      then [] #
           splitBlankLines
             (rev (takeWhile (\<lambda>x. x \<noteq> CHR 0x0A) (rev (takeWhile isSpace cs)))
              @ dropWhile isSpace cs)
      else (case splitBlankLines cs of [] \<Rightarrow> [[c]] | w # ws \<Rightarrow> (c # w) # ws))"
  by pat_completeness auto
termination
proof (relation "measure length", goal_cases)
  case 1
  show ?case by simp
next
  case (2 c cs)
  have "length (rev (takeWhile (\<lambda>x. x \<noteq> CHR 0x0A) (rev (takeWhile isSpace cs))))
          \<le> length (takeWhile isSpace cs)"
    using length_takeWhile_le [of "\<lambda>x. x \<noteq> CHR 0x0A" "rev (takeWhile isSpace cs)"] by simp
  moreover have "length (takeWhile isSpace cs) + length (dropWhile isSpace cs) = length cs"
    by (metis length_append takeWhile_dropWhile_id)
  ultimately show ?case by simp
next
  case 3
  then show ?case by simp
qed

text \<open>
  \<open>img.src\<close> reflects the attribute: empty when there is none, else the attribute
  resolved against the page, or the attribute itself when that fails. An image whose
  \<open>src\<close> is not empty gets the resolved URL, or is removed when the URL is invalid.
\<close>

definition imgSrc :: "host \<Rightarrow> node \<Rightarrow> string" where
  "imgSrc h img =
     (case getAttribute img ''src'' of
        None \<Rightarrow> []
      | Some v \<Rightarrow> (case urlHref h v (location h) of Inr u \<Rightarrow> u | Inl e \<Rightarrow> v))"

definition setAttribute :: "string \<Rightarrow> string \<Rightarrow> (string \<times> string) list \<Rightarrow> (string \<times> string) list" where
  "setAttribute a v as =
     (if a \<in> fst ` set as then map (\<lambda>(b, w). if b = a then (b, v) else (b, w)) as
      else as @ [(a, v)])"

fun resolveImage :: "host \<Rightarrow> node \<Rightarrow> node list" where
  "resolveImage h (Element t as cs) =
     (if t = ''img'' \<and> imgSrc h (Element t as cs) \<noteq> [] then
        (case urlHref h (imgSrc h (Element t as cs)) (location h) of
           Inr u \<Rightarrow> [Element t (setAttribute ''src'' u as) (concat (map (resolveImage h) cs))]
         | Inl e \<Rightarrow> [])
      else [Element t as (concat (map (resolveImage h) cs))])"
| "resolveImage h n = [n]"

definition resolveImages :: "host \<Rightarrow> node \<Rightarrow> node" where
  "resolveImages h elem =
     (case elem of
        Element t as cs \<Rightarrow> Element t as (concat (map (resolveImage h) cs))
      | n \<Rightarrow> n)"

definition processedDom :: "host \<Rightarrow> string \<Rightarrow> node" where
  "processedDom h c =
     convertDivs
       (resolveImages h
         (wrapTopLevelText
           (cleanTextNodes
             (removeSelectors unwantedSelectors (Element ''div'' [] (parseFragment h c))))))"

definition properXhtml :: "string \<Rightarrow> string" where
  "properXhtml s =
     trim (collapseSpaces (replaceNbsp (closeImgTags
       (closeVoidTag ''hr'' (closeVoidTag ''br'' s)))))"

definition processChapterContent :: "host \<Rightarrow> string option \<Rightarrow> string" where
  "processChapterContent h chapterContent =
     (case chapterContent of
        None \<Rightarrow> ''<p>No content available.</p>''
      | Some c \<Rightarrow>
          if c = [] then ''<p>No content available.</p>''
          else
            (let processedContent = properXhtml (innerHTML (processedDom h c))
             in if \<not> strIncludes processedContent ''<p>'' \<and>
                   \<not> strIncludes processedContent ''<div>''
                then join ''\<newline>''
                       (map (\<lambda>para. ''<p>'' @ para @ ''</p>'')
                         (filter (\<lambda>para. para \<noteq> [])
                           (map trim (splitBlankLines processedContent))))
                else processedContent))"

subsection \<open>addChapters, addCoverImage, generateEpub\<close>

definition chapterXhtml :: "host \<Rightarrow> Chapter \<Rightarrow> string" where
  \<open>chapterXhtml h chapter =
     ''<?xml version="1.0" encoding="UTF-8"?>\<newline>'' @
     ''<!DOCTYPE html>\<newline>'' @
     ''<html xmlns="http://www.w3.org/1999/xhtml">\<newline>'' @
     ''<head>\<newline>'' @
     ''    <title>'' @ escapeXml (title chapter) @ ''</title>\<newline>'' @
     ''    <link rel="stylesheet" type="text/css" href="style.css"/>\<newline>'' @
     ''</head>\<newline>'' @
     ''<body>\<newline>'' @
     ''    <h1>'' @ escapeXml (title chapter) @ ''</h1>\<newline>'' @
     ''    '' @ processChapterContent h (content chapter) @ ''\<newline>'' @
     ''</body>\<newline>'' @
     ''</html>''\<close>

definition chapterFile :: "nat \<Rightarrow> string" where
  "chapterFile i = ''OEBPS/chapter-'' @ showNat (i + 1) @ ''.xhtml''"

definition addChapters :: "host \<Rightarrow> Chapter list \<Rightarrow> zip \<Rightarrow> zip" where
  "addChapters h chapters z =
     foldl (\<lambda>z (i, chapter). z(chapterFile i \<mapsto> chapterXhtml h chapter)) z (List.enumerate 0 chapters)"

definition addCoverImage :: "epubEnv \<Rightarrow> zip \<Rightarrow> zip" where
  "addCoverImage env z =
     (case coverBytes env of Some bytes \<Rightarrow> z(''OEBPS/cover.jpg'' \<mapsto> bytes) | None \<Rightarrow> z)"

text \<open>
  \<open>generateEpub\<close> writes into the archive that the generator object holds, and the
  container it returns is that archive.
\<close>

definition generateEpub :: "host \<Rightarrow> epubEnv \<Rightarrow> MetaInfo \<Rightarrow> Chapter list \<Rightarrow> zip \<Rightarrow> failure + zip" where
  "generateEpub h env metaInfo chapters z =
     (if chapters = [] then Inl (GenerationFailed NoChaptersToGenerate)
      else Inr
        (let z1 = createEpubStructure z;
             z2 = addMetadata env metaInfo chapters z1;
             z3 = addChapters h chapters z2
         in if coverImageUrl metaInfo \<noteq> [] then addCoverImage env z3 else z3))"

section \<open>WebToEpubApp\<close>

text \<open>
  The state of the application that the claims are about: the chapters, the check boxes
  of the chapter list by position (none where the page has no such box), and the archive
  of the one generator object that the application creates.
\<close>

record App =
  currentChapters :: "Chapter list"
  checkboxes :: "nat \<Rightarrow> bool option"
  archive :: zip

text \<open>
  \<open>fetchAllChapters\<close>: every chapter in turn, an exception counted and not passed on.
  The answers of the proxies are given by chapter position and attempt.
\<close>

definition fetchStep ::
  "host \<Rightarrow> (nat \<Rightarrow> nat \<Rightarrow> response list) \<Rightarrow> Chapter list \<times> nat \<times> nat \<Rightarrow> nat \<times> Chapter
     \<Rightarrow> Chapter list \<times> nat \<times> nat" where
  "fetchStep h answers st ic =
     (case st of (fetched, successCount, errorCount) \<Rightarrow>
        (let result = fetchChapterContent h (answers (fst ic)) (snd ic)
         in if thrown result = None
            then (fetched @ [chapterAfter result], successCount + 1, errorCount)
            else (fetched @ [chapterAfter result], successCount, errorCount + 1)))"

definition fetchAllChapters ::
  "host \<Rightarrow> (nat \<Rightarrow> nat \<Rightarrow> response list) \<Rightarrow> Chapter list \<Rightarrow> Chapter list \<times> nat \<times> nat" where
  "fetchAllChapters h answers chapters =
     foldl (fetchStep h answers) ([], 0, 0) (List.enumerate 0 chapters)"

definition getSelectedChapters :: "App \<Rightarrow> Chapter list" where
  "getSelectedChapters app =
     map snd (filter (\<lambda>(i, chapter). checkboxes app i = Some True \<and> status chapter = Completed)
                (List.enumerate 0 (currentChapters app)))"

definition handlePackEpub :: "host \<Rightarrow> epubEnv \<Rightarrow> MetaInfo \<Rightarrow> App \<Rightarrow> (failure + zip) \<times> App" where
  "handlePackEpub h env metaInfo app =
     (if getSelectedChapters app = [] then (Inl NothingSelected, app)
      else
        (case generateEpub h env metaInfo (getSelectedChapters app) (archive app) of
           Inl e \<Rightarrow> (Inl (GenerationFailed e), app)
         | Inr z \<Rightarrow> (Inr z, app\<lparr>archive := z\<rparr>)))"

definition isValidUrl :: "host \<Rightarrow> string \<Rightarrow> bool" where
  "isValidUrl h s = (case urlHostname h s of Inr n \<Rightarrow> True | Inl m \<Rightarrow> False)"

text \<open>
  \<open>handleLoadAndAnalyze\<close>: the chapter list is emptied before the page is parsed; after
  the fetch the box of a chapter is checked unless the chapter ended in error.
\<close>

definition handleLoadAndAnalyze ::
  "host \<Rightarrow> response list \<Rightarrow> (nat \<Rightarrow> nat \<Rightarrow> response list) \<Rightarrow> string \<Rightarrow> App \<Rightarrow> failure option \<times> App" where
  "handleLoadAndAnalyze h pageResponses answers startingUrl app =
     (if trim startingUrl = [] then (Some UrlMissing, app)
      else if \<not> isValidUrl h (trim startingUrl) then (Some UrlInvalid, app)
      else
        (case parsePage h pageResponses (trim startingUrl) of
           Inl e \<Rightarrow> (Some e, app\<lparr>currentChapters := [], checkboxes := (\<lambda>i. None)\<rparr>)
         | Inr chapters \<Rightarrow>
             if chapters = []
             then (Some NoChaptersInResult, app\<lparr>currentChapters := [], checkboxes := (\<lambda>i. None)\<rparr>)
             else
               (let fetched = fst (fetchAllChapters h answers chapters)
                in (None,
                    app\<lparr>currentChapters := fetched,
                        checkboxes := (\<lambda>i. if i < length fetched
                                             then Some (status (fetched ! i) = Completed)
                                             else None)\<rparr>))))"

section \<open>Notions used in the properties\<close>

text \<open>The values of \<open>href\<close> that the loop over the links does not skip.\<close>

definition linkHrefs :: "node list \<Rightarrow> string list" where
  "linkHrefs links =
     concat (map (\<lambda>l. case getAttribute l ''href'' of
                          None \<Rightarrow> []
                        | Some x \<Rightarrow> if x = [] then [] else [x]) links)"




text \<open>The attempts of a trace, and the delays that are followed by another attempt.\<close>

fun attempts :: "event list \<Rightarrow> nat list" where
  "attempts [] = []"
| "attempts (Attempt k # es) = k # attempts es"
| "attempts (Sleep d # es) = attempts es"

fun retryDelays :: "event list \<Rightarrow> nat list" where
  "retryDelays (Sleep d # Attempt k # es) = d # retryDelays (Attempt k # es)"
| "retryDelays (e # es) = retryDelays es"
| "retryDelays [] = []"

text \<open>
  The length of the trimmed text of an element; the elements in the order in which
  \<open>findLargestTextBlock\<close> visits them, tag by tag; and the same elements in document order.
\<close>

definition textLength :: "node \<Rightarrow> nat" where
  "textLength e = length (trim (textContent e))"











section \<open>Example inputs\<close>

text \<open>
  A host that takes a string starting with \<open>http\<close> for an absolute URL, resolves
  anything else by appending it to such a base, and rejects the rest.
\<close>

definition exampleHost :: "node \<Rightarrow> host" where
  "exampleHost doc =
     \<lparr>urlHref = (\<lambda>href base. if prefix ''http'' href then Inr href
                              else if prefix ''http'' base then Inr (base @ href)
                              else Inl ''Invalid URL''),
      urlHostname = (\<lambda>u. if prefix ''http://'' u
                          then Inr (takeWhile (\<lambda>c. c \<noteq> CHR ''/'') (drop 7 u))
                          else Inl ''Invalid URL''),
      parseFromString = (\<lambda>s. doc),
      parseFragment = (\<lambda>s. []),
      location = ''http://localhost/''\<rparr>"

definition anchor :: "string \<Rightarrow> string \<Rightarrow> node" where
  "anchor href label = Element ''a'' [(''href'', href)] [Text label]"

definition page :: "node list \<Rightarrow> node" where
  "page body = Element ''html'' [] [Element ''head'' [] [], Element ''body'' [] body]"

text \<open>Three links, the second absolute, the third a repetition of the first.\<close>

definition repeatedLinks :: node where
  "repeatedLinks =
     page [anchor ''c2'' ''Chapter 2'', anchor ''http://x/c1'' ''Chapter 1'',
           anchor ''c2'' ''Chapter 10'']"

definition repeatedChapters :: "Chapter list" where
  "repeatedChapters =
     [\<lparr>url = ''http://x/c1'', baseUrl = [], title = ''Chapter 1'', index = 1,
       selected = True, status = Pending, content = None, error = None\<rparr>,
      \<lparr>url = ''c2'', baseUrl = [], title = ''Chapter 2'', index = 0,
       selected = True, status = Pending, content = None, error = None\<rparr>]"

text \<open>A page without a link.\<close>

definition plainPage :: node where
  "plainPage = page [Element ''p'' [] [Text ''hello'']]"

definition emptyApp :: App where
  "emptyApp = \<lparr>currentChapters = [], checkboxes = (\<lambda>i. None), archive = Map.empty\<rparr>"







text \<open>
  A chapter page whose body sits under the class that the selectors know, and the chapter
  that points to it; proxies that all fail, and proxies of which the second answers.
\<close>

definition chapterText :: string where
  "chapterText = concat (replicate 12 ''It was a dark night. '')"

definition chapterPage :: node where
  "chapterPage =
     page [Element ''div'' [(''class'', ''chapter-content'')]
             [Element ''p'' [] [Text chapterText]]]"

definition firstChapter :: Chapter where
  "firstChapter =
     \<lparr>url = ''http://n.org/c1'', baseUrl = ''http://n.org/'', title = ''Chapter 1'', index = 0,
      selected = True, status = Pending, content = None, error = None\<rparr>"

definition failingProxies :: "response list" where
  "failingProxies = [Threw ''Failed to fetch'', Status 503, Body [], Status 404, Status 500]"

definition answeringProxies :: "response list" where
  "answeringProxies = [Status 503, Body ''<html>...</html>'', Body [], Status 404, Status 500]"

text \<open>A book of two fetched chapters, its metadata and the data of a run of the generator.\<close>

definition twoChapters :: "Chapter list" where
  "twoChapters =
     [\<lparr>url = ''http://n.org/c1'', baseUrl = ''http://n.org/'', title = ''Chapter 1'', index = 0,
       selected = True, status = Completed, content = Some ''<p>One.</p>'', error = None\<rparr>,
      \<lparr>url = ''http://n.org/c2'', baseUrl = ''http://n.org/'', title = ''Chapter 2: Tom & Jerry'',
       index = 1, selected = True, status = Completed, content = Some ''<p>Two.</p>'',
       error = None\<rparr>]"

definition bookInfo :: MetaInfo where
  "bookInfo =
     \<lparr>metaTitle = ''Tom & Jerry'', metaAuthor = ''A. <B>'', metaLanguage = ''en'',
      metaDescription = [], metaSubject = [], coverImageUrl = []\<rparr>"

definition bookEnv :: epubEnv where
  "bookEnv =
     \<lparr>now = ''2025-01-01T00:00:00.000Z'',
      bookIdentifier = ''00000000-0000-4000-8000-000000000000'', coverBytes = None\<rparr>"

text \<open>
  The application with the two chapters fetched and both boxes checked; the same after
  a first container has been generated; and then with the second box cleared.
\<close>

definition fetchedApp :: App where
  "fetchedApp =
     \<lparr>currentChapters = twoChapters, checkboxes = (\<lambda>i. if i < 2 then Some True else None),
      archive = Map.empty\<rparr>"

definition packedApp :: App where
  "packedApp = snd (handlePackEpub (exampleHost plainPage) bookEnv bookInfo fetchedApp)"

definition repackApp :: App where
  "repackApp = packedApp\<lparr>checkboxes := (\<lambda>i. if i = 0 then Some True else if i = 1 then Some False else None)\<rparr>"

text \<open>A chapter page whose body is one paragraph of \<open>n\<close> letters.\<close>

definition paragraphBody :: "nat \<Rightarrow> node" where
  "paragraphBody n =
     Element ''div'' [(''class'', ''chapter-content'')]
       [Element ''p'' [] [Text (replicate n (CHR ''x''))]]"

definition paragraphPage :: "nat \<Rightarrow> node" where
  "paragraphPage n = page [paragraphBody n]"








section \<open>Properties\<close>

subsection \<open>Strings\<close>

lemma replaceAll_Nil [simp]: "replaceAll c r [] = []"
  by (simp add: replaceAll_def)

lemma replaceAll_Cons [simp]:
  "replaceAll c r (x # xs) = (if x = c then r else [x]) @ replaceAll c r xs"
  by (simp add: replaceAll_def)

lemma strIncludes_prefix: "prefix p s \<Longrightarrow> strIncludes s p"
  by (cases s) simp_all

lemma strIncludes_after: "prefix (pre @ p) s \<Longrightarrow> strIncludes s p"
proof (induction pre arbitrary: s)
  case Nil
  then show ?case by (simp add: strIncludes_prefix)
next
  case (Cons c pre)
  then obtain s' where s: "s = c # s'" and "prefix (pre @ p) s'"
    by (cases s) auto
  with Cons.IH show ?case by simp
qed

subsection \<open>escapeXml\<close>

lemma escapeXml_Nil [simp]: "escapeXml [] = []"
  by (simp add: escapeXml_def)

lemma escape_passes_Cons:
  "replaceAll (CHR 0x27) ''&#39;''
     (replaceAll (CHR 0x22) ''&quot;''
       (replaceAll (CHR ''>'') ''&gt;''
         (replaceAll (CHR ''<'') ''&lt;''
           (replaceAll (CHR ''&'') ''&amp;'' (c # cs)))))
   = escapeChar c @
     replaceAll (CHR 0x27) ''&#39;''
       (replaceAll (CHR 0x22) ''&quot;''
         (replaceAll (CHR ''>'') ''&gt;''
           (replaceAll (CHR ''<'') ''&lt;''
             (replaceAll (CHR ''&'') ''&amp;'' cs))))"
  by (simp add: escapeChar_def)

lemma escapeXml_passes:
  "escapeXml s =
     replaceAll (CHR 0x27) ''&#39;''
       (replaceAll (CHR 0x22) ''&quot;''
         (replaceAll (CHR ''>'') ''&gt;''
           (replaceAll (CHR ''<'') ''&lt;''
             (replaceAll (CHR ''&'') ''&amp;'' s))))"
proof (cases s)
  case Nil
  then show ?thesis by (simp add: escapeXml_def)
next
  case (Cons c cs)
  then have "s \<noteq> []" by simp
  then show ?thesis unfolding escapeXml_def by (rule if_not_P)
qed

lemma escapeXml_Cons: "escapeXml (c # cs) = escapeChar c @ escapeXml cs"
  unfolding escapeXml_passes by (rule escape_passes_Cons)

lemma escapeXml_concat: "escapeXml s = concat (map escapeChar s)"
  by (induction s) (simp_all add: escapeXml_Cons)

lemma decodeRefs_escapeChar: "decodeRefs (escapeChar c @ rest) = c # decodeRefs rest"
  by (simp add: escapeChar_def)

lemma decodeRefs_escapeXml: "decodeRefs (escapeXml s) = s"
  by (induction s) (simp_all add: escapeXml_Cons decodeRefs_escapeChar)

lemma escapeChar_no_markup:
  "x \<in> set (escapeChar c) \<Longrightarrow>
     x \<noteq> CHR ''<'' \<and> x \<noteq> CHR ''>'' \<and> x \<noteq> CHR 0x22 \<and> x \<noteq> CHR 0x27"
  by (auto simp: escapeChar_def split: if_splits)

lemma escapeXml_no_markup:
  "x \<in> set (escapeXml s) \<Longrightarrow>
     x \<noteq> CHR ''<'' \<and> x \<noteq> CHR ''>'' \<and> x \<noteq> CHR 0x22 \<and> x \<noteq> CHR 0x27"
proof (induction s)
  case Nil
  then show ?case by simp
next
  case (Cons c cs)
  then have "x \<in> set (escapeChar c) \<or> x \<in> set (escapeXml cs)"
    by (simp add: escapeXml_Cons)
  then show ?case using Cons.IH escapeChar_no_markup [of x c] by fast
qed

lemma contentOpf_has_title:
  \<open>strIncludes (contentOpf env m chapters)
     (''<dc:title>'' @ escapeXml (metaTitle m) @ ''</dc:title>'')\<close>
  by (rule strIncludes_after [where pre =
        \<open>''<?xml version="1.0" encoding="UTF-8"?>\<newline>'' @
         ''<package version="3.0" xmlns="http://www.idpf.org/2007/opf" unique-identifier="BookId">\<newline>'' @
         ''    <metadata xmlns:dc="http://purl.org/dc/elements/1.1/" xmlns:opf="http://www.idpf.org/2007/opf">\<newline>'' @
         ''        <dc:identifier id="BookId">urn:uuid:'' @ bookIdentifier env @ ''</dc:identifier>\<newline>'' @
         ''        ''\<close>])
     (simp add: contentOpf_def opfMetadata_def)

lemma contentOpf_has_creator:
  \<open>strIncludes (contentOpf env m chapters)
     (''<dc:creator>'' @ escapeXml (metaAuthor m) @ ''</dc:creator>'')\<close>
  by (rule strIncludes_after [where pre =
        \<open>''<?xml version="1.0" encoding="UTF-8"?>\<newline>'' @
         ''<package version="3.0" xmlns="http://www.idpf.org/2007/opf" unique-identifier="BookId">\<newline>'' @
         ''    <metadata xmlns:dc="http://purl.org/dc/elements/1.1/" xmlns:opf="http://www.idpf.org/2007/opf">\<newline>'' @
         ''        <dc:identifier id="BookId">urn:uuid:'' @ bookIdentifier env @ ''</dc:identifier>\<newline>'' @
         ''        <dc:title>'' @ escapeXml (metaTitle m) @ ''</dc:title>\<newline>'' @
         ''        ''\<close>])
     (simp add: contentOpf_def opfMetadata_def)

lemma normalizeNewlines_Cons:
  "CHR 0x0D \<noteq> c \<Longrightarrow> normalizeNewlines (c # cs) = c # normalizeNewlines cs"
  by (cases cs) auto

lemma normalizeNewlines_return:
  "ys = [] \<or> hd ys \<noteq> CHR 0x0A \<Longrightarrow>
     normalizeNewlines (CHR 0x0D # ys) = CHR 0x0A # normalizeNewlines ys"
  by (cases ys) auto

lemma normalizeNewlines_append:
  "CHR 0x0D \<notin> set xs \<Longrightarrow> normalizeNewlines (xs @ ys) = xs @ normalizeNewlines ys"
  by (induction xs) (simp_all add: normalizeNewlines_Cons)

lemma escapeChar_no_return: "CHR 0x0D \<noteq> c \<Longrightarrow> CHR 0x0D \<notin> set (escapeChar c)"
  by (auto simp: escapeChar_def)

lemma escapeChar_plain:
  "escapeChar (CHR 0x0D) = [CHR 0x0D]" "escapeChar (CHR 0x0A) = [CHR 0x0A]"
  by (simp_all add: escapeChar_def)

lemma hd_escapeChar: "d \<noteq> CHR 0x0A \<Longrightarrow> hd (escapeChar d @ rest) \<noteq> CHR 0x0A"
  by (simp add: escapeChar_def)

lemma normalizeNewlines_escapeXml:
  "normalizeNewlines (escapeXml s) = escapeXml (normalizeNewlines s)"
proof (induction s rule: normalizeNewlines.induct)
  case 1
  show ?case by simp
next
  case (2 c)
  show ?case
  proof (cases "c = CHR 0x0D")
    case True
    then show ?thesis by (simp add: escapeXml_Cons escapeChar_plain)
  next
    case False
    then have "CHR 0x0D \<notin> set (escapeChar c)" by (intro escapeChar_no_return) simp
    from normalizeNewlines_append [OF this, of "[]"] False show ?thesis
      by (simp add: escapeXml_Cons)
  qed
next
  case (3 c d cs)
  show ?case
  proof (cases "c = CHR 0x0D")
    case True
    show ?thesis
    proof (cases "d = CHR 0x0A")
      case line: True
      with True 3 show ?thesis by (simp add: escapeXml_Cons escapeChar_plain)
    next
      case other: False
      have "normalizeNewlines (escapeXml (c # d # cs))
          = normalizeNewlines (CHR 0x0D # (escapeChar d @ escapeXml cs))"
        by (simp add: True escapeXml_Cons escapeChar_plain)
      also have "\<dots> = CHR 0x0A # normalizeNewlines (escapeChar d @ escapeXml cs)"
        by (rule normalizeNewlines_return) (simp add: hd_escapeChar [OF other])
      also have "\<dots> = CHR 0x0A # escapeXml (normalizeNewlines (d # cs))"
        using 3(2) [OF _ True] other True by (simp add: escapeXml_Cons)
      also have "\<dots> = escapeXml (normalizeNewlines (c # d # cs))"
        using True other by (simp add: escapeXml_Cons escapeChar_plain)
      finally show ?thesis .
    qed
  next
    case False
    then have "CHR 0x0D \<notin> set (escapeChar c)" by (intro escapeChar_no_return) simp
    from normalizeNewlines_append [OF this, of "escapeXml (d # cs)"] False 3 show ?thesis
      by (simp add: escapeXml_Cons)
  qed
qed

lemma unescapeHtml_escapeXml:
  "unescapeHtml (escapeXml s) = filter (\<lambda>c. c \<noteq> CHR 0x00) (normalizeNewlines s)"
  by (simp add: unescapeHtml_def normalizeNewlines_escapeXml decodeRefs_escapeXml)

lemma normalizeNewlines_no_return: "CHR 0x0D \<notin> set (normalizeNewlines s)"
  by (induction s rule: normalizeNewlines.induct) auto

lemma normalizeNewlines_id: "CHR 0x0D \<notin> set s \<Longrightarrow> normalizeNewlines s = s"
  by (induction s) (simp_all add: normalizeNewlines_Cons)

lemma unescapeHtml_escapeXml_iff:
  "unescapeHtml (escapeXml s) = s \<longleftrightarrow> CHR 0x0D \<notin> set s \<and> CHR 0x00 \<notin> set s"
proof
  assume eq: "unescapeHtml (escapeXml s) = s"
  have "CHR 0x0D \<notin> set (unescapeHtml (escapeXml s))" "CHR 0x00 \<notin> set (unescapeHtml (escapeXml s))"
    using normalizeNewlines_no_return [of s] by (auto simp: unescapeHtml_escapeXml)
  then show "CHR 0x0D \<notin> set s \<and> CHR 0x00 \<notin> set s" by (simp add: eq)
next
  assume a: "CHR 0x0D \<notin> set s \<and> CHR 0x00 \<notin> set s"
  then have "filter (\<lambda>c. c \<noteq> CHR 0x00) s = s" by (auto simp: filter_id_conv)
  with a show "unescapeHtml (escapeXml s) = s"
    by (simp add: unescapeHtml_escapeXml normalizeNewlines_id)
qed

text \<open>
  C7, as the code has it. The package document holds the title and the author between
  their tags in the form that \<open>escapeXml\<close> gives them; that form is the string with each
  of the five characters \<open>& < > " '\<close> replaced by its reference, so none of \<open>< > " '\<close>
  is left in it. Decoding it with \<open>Utils.unescapeHtml\<close> gives the string with its line
  ends normalised and its NULs left out; this is the string itself exactly when it holds
  no carriage return and no NUL.
\<close>

theorem escapeXml_roundtrip:
  \<open>strIncludes (contentOpf env m chapters)
      (''<dc:title>'' @ escapeXml (metaTitle m) @ ''</dc:title>'') \<and>
    strIncludes (contentOpf env m chapters)
      (''<dc:creator>'' @ escapeXml (metaAuthor m) @ ''</dc:creator>'') \<and>
    escapeXml s = concat (map escapeChar s) \<and>
    CHR ''<'' \<notin> set (escapeXml s) \<and> CHR ''>'' \<notin> set (escapeXml s) \<and>
    CHR 0x22 \<notin> set (escapeXml s) \<and> CHR 0x27 \<notin> set (escapeXml s) \<and>
    unescapeHtml (escapeXml s) = filter (\<lambda>c. c \<noteq> CHR 0x00) (normalizeNewlines s) \<and>
    (unescapeHtml (escapeXml s) = s \<longleftrightarrow> CHR 0x0D \<notin> set s \<and> CHR 0x00 \<notin> set s)\<close>
proof -
  have "CHR ''<'' \<notin> set (escapeXml s)" "CHR ''>'' \<notin> set (escapeXml s)"
    "CHR 0x22 \<notin> set (escapeXml s)" "CHR 0x27 \<notin> set (escapeXml s)"
    using escapeXml_no_markup [of _ s] by blast+
  then show ?thesis
    using contentOpf_has_title [of env m chapters] contentOpf_has_creator [of env m chapters]
      escapeXml_concat [of s] unescapeHtml_escapeXml [of s] unescapeHtml_escapeXml_iff [of s]
    by simp
qed

theorem escapeXml_roundtrip_witness:
  \<open>escapeXml (metaTitle bookInfo) = ''Tom &amp; Jerry'' \<and>
    escapeXml (metaAuthor bookInfo) = ''A. &lt;B&gt;'' \<and>
    strIncludes (contentOpf bookEnv bookInfo twoChapters) ''<dc:title>Tom &amp; Jerry</dc:title>'' \<and>
    strIncludes (contentOpf bookEnv bookInfo twoChapters) ''<dc:creator>A. &lt;B&gt;</dc:creator>'' \<and>
    unescapeHtml (escapeXml (metaTitle bookInfo)) = ''Tom & Jerry'' \<and>
    unescapeHtml (escapeXml (metaAuthor bookInfo)) = ''A. <B>''\<close>
proof -
  have given: "metaTitle bookInfo = ''Tom & Jerry''" "metaAuthor bookInfo = ''A. <B>''"
    by (simp_all add: bookInfo_def)
  have escaped: \<open>escapeXml ''Tom & Jerry'' = ''Tom &amp; Jerry''\<close>
    \<open>escapeXml ''A. <B>'' = ''A. &lt;B&gt;''\<close>
    by code_simp+
  have plain: "CHR 0x0D \<notin> set ''Tom & Jerry'' \<and> CHR 0x00 \<notin> set ''Tom & Jerry''"
    "CHR 0x0D \<notin> set ''A. <B>'' \<and> CHR 0x00 \<notin> set ''A. <B>''"
    by simp_all
  have "unescapeHtml (escapeXml ''Tom & Jerry'') = ''Tom & Jerry''"
    using escapeXml_roundtrip [of bookEnv bookInfo twoChapters "''Tom & Jerry''"] plain(1)
    by blast
  moreover have "unescapeHtml (escapeXml ''A. <B>'') = ''A. <B>''"
    using escapeXml_roundtrip [of bookEnv bookInfo twoChapters "''A. <B>''"] plain(2)
    by blast
  moreover have
    \<open>strIncludes (contentOpf bookEnv bookInfo twoChapters)
       (''<dc:title>'' @ escapeXml (metaTitle bookInfo) @ ''</dc:title>'')\<close>
    \<open>strIncludes (contentOpf bookEnv bookInfo twoChapters)
       (''<dc:creator>'' @ escapeXml (metaAuthor bookInfo) @ ''</dc:creator>'')\<close>
    using escapeXml_roundtrip [of bookEnv bookInfo twoChapters "[]"] by blast+
  ultimately show ?thesis
    by (simp add: given escaped)
qed

text \<open>
  C7 as worded, for every string, fails: a carriage return in a title is written as it
  is, and the decoder gives a line feed back.
\<close>

theorem escapeXml_roundtrip_counterexample:
  "escapeXml (''Tom'' @ [CHR 0x0D] @ ''& Jerry'') = ''Tom'' @ [CHR 0x0D] @ ''&amp; Jerry'' \<and>
   unescapeHtml (escapeXml (''Tom'' @ [CHR 0x0D] @ ''& Jerry'')) = ''Tom'' @ [CHR 0x0A] @ ''& Jerry'' \<and>
   unescapeHtml (escapeXml (''Tom'' @ [CHR 0x0D] @ ''& Jerry'')) \<noteq> ''Tom'' @ [CHR 0x0D] @ ''& Jerry''"
  by code_simp

subsection \<open>The sort\<close>

lemma mset_insertBy: "mset (insertBy cmp x ys) = add_mset x (mset ys)"
  by (induction ys) simp_all

lemma mset_sortBy: "mset (sortBy cmp xs) = mset xs"
  by (induction xs) (simp_all add: sortBy_def mset_insertBy)

lemma set_sortBy: "set (sortBy cmp xs) = set xs"
  using mset_sortBy [of cmp xs] by (metis set_mset_mset)

lemma length_sortBy: "length (sortBy cmp xs) = length xs"
  using mset_sortBy [of cmp xs] by (metis size_mset)

lemma distinct_map_sortBy: "distinct (map f (sortBy cmp xs)) = distinct (map f xs)"
proof -
  have "mset (map f (sortBy cmp xs)) = mset (map f xs)"
    by (simp add: mset_sortBy)
  then show ?thesis by (rule mset_eq_imp_distinct_iff)
qed





subsection \<open>processLinks\<close>

lemma processLinks_urls_fresh:
  "c \<in> set (processLinks h base ils seen) \<Longrightarrow> url c \<notin> seen"
proof (induction ils arbitrary: seen)
  case Nil
  then show ?case by simp
next
  case (Cons il ils)
  obtain i l where il: "il = (i, l)" by (cases il)
  show ?case
    using Cons.prems Cons.IH [of seen]
      Cons.IH [of "insert (resolveUrl h (the (getAttribute l ''href'')) base) seen"]
    by (auto simp: il newChapter_def split: option.splits if_splits)
qed

lemma processLinks_distinct: "distinct (map url (processLinks h base ils seen))"
proof (induction ils arbitrary: seen)
  case Nil
  show ?case by simp
next
  case (Cons il ils)
  obtain i l where il: "il = (i, l)" by (cases il)
  have fresh: "\<And>u. u \<notin> url ` set (processLinks h base ils (insert u seen))"
    using processLinks_urls_fresh [of _ h base ils] by blast
  show ?case
    using Cons.IH fresh
    by (auto simp: il newChapter_def split: option.splits)
qed

lemma processLinks_urls:
  "set (map url (processLinks h base ils seen)) =
     set (map (\<lambda>x. resolveUrl h x base) (linkHrefs (map snd ils))) - seen"
proof (induction ils arbitrary: seen)
  case Nil
  show ?case by (simp add: linkHrefs_def)
next
  case (Cons il ils)
  obtain i l where il: "il = (i, l)" by (cases il)
  have tl: "linkHrefs (map snd (il # ils)) =
      (case getAttribute l ''href'' of None \<Rightarrow> [] | Some x \<Rightarrow> if x = [] then [] else [x])
      @ linkHrefs (map snd ils)"
    by (simp add: linkHrefs_def il)
  show ?case
    unfolding tl using Cons.IH
    by (auto simp: il newChapter_def split: option.splits)
qed

lemma processLinks_link:
  "c \<in> set (processLinks h base ils seen) \<Longrightarrow>
     \<exists>l x. (index c, l) \<in> set ils \<and> getAttribute l ''href'' = Some x \<and> x \<noteq> [] \<and>
           url c = resolveUrl h x base"
proof (induction ils arbitrary: seen)
  case Nil
  then show ?case by simp
next
  case (Cons il ils)
  obtain i l where il: "il = (i, l)" by (cases il)
  show ?case
    using Cons.prems Cons.IH
    by (fastforce simp: il newChapter_def split: option.splits if_splits)
qed



lemma in_set_enumerate0:
  "(i, x) \<in> set (List.enumerate 0 xs) \<longleftrightarrow> i < length xs \<and> xs ! i = x"
  by (auto simp: in_set_enumerate_eq)

lemma resolveUrl_cases:
  "(\<forall>u. urlHref h href base = Inr u \<longrightarrow> resolveUrl h href base = u) \<and>
   (\<forall>e. urlHref h href base = Inl e \<longrightarrow> resolveUrl h href base = href)"
  by (simp add: resolveUrl_def)

text \<open>
  C10. \<open>resolveUrl\<close> returns the resolved URL when the host accepts the pair and the
  raw \<open>href\<close> when it does not, so it has a value in either case. The URL recorded
  for a chapter is what \<open>resolveUrl\<close> returns for the \<open>href\<close> of its link, hence the
  raw \<open>href\<close> when the resolution fails; and the recorded URLs are pairwise distinct
  and are exactly the values of \<open>resolveUrl\<close> on the links.
\<close>

theorem resolveUrl_total_dedup:
  "(\<forall>u. urlHref h href base = Inr u \<longrightarrow> resolveUrl h href base = u) \<and>
   (\<forall>e. urlHref h href base = Inl e \<longrightarrow> resolveUrl h href base = href) \<and>
   (extractChapters h doc base siteRules = Inr chapters \<longrightarrow>
      distinct (map url chapters) \<and>
      set (map url chapters) =
        set (map (\<lambda>x. resolveUrl h x base) (linkHrefs (allChapterLinks doc siteRules))) \<and>
      (\<forall>c \<in> set chapters.
         index c < length (allChapterLinks doc siteRules) \<and>
         (\<exists>x. getAttribute (allChapterLinks doc siteRules ! index c) ''href'' = Some x \<and>
              url c = resolveUrl h x base \<and>
              (\<forall>e. urlHref h x base = Inl e \<longrightarrow> url c = x))))"
proof (intro conjI impI)
  show "\<forall>u. urlHref h href base = Inr u \<longrightarrow> resolveUrl h href base = u"
    by (simp add: resolveUrl_def)
  show "\<forall>e. urlHref h href base = Inl e \<longrightarrow> resolveUrl h href base = href"
    by (simp add: resolveUrl_def)
next
  let ?links = "allChapterLinks doc siteRules"
  let ?found = "processLinks h base (List.enumerate 0 ?links) {}"
  assume "extractChapters h doc base siteRules = Inr chapters"
  then have chapters: "chapters = sortBy compareChapters ?found"
    by (auto simp: extractChapters_def split: if_splits)
  show "distinct (map url chapters)"
    by (simp add: chapters distinct_map_sortBy processLinks_distinct)
  show "set (map url chapters) = set (map (\<lambda>x. resolveUrl h x base) (linkHrefs ?links))"
    using processLinks_urls [of h base "List.enumerate 0 ?links" "{}"]
    by (simp add: chapters set_sortBy)
  show "\<forall>c \<in> set chapters.
         index c < length ?links \<and>
         (\<exists>x. getAttribute (?links ! index c) ''href'' = Some x \<and>
              url c = resolveUrl h x base \<and>
              (\<forall>e. urlHref h x base = Inl e \<longrightarrow> url c = x))"
  proof
    fix c
    assume "c \<in> set chapters"
    then have "c \<in> set ?found" by (simp add: chapters set_sortBy)
    then obtain l x where "(index c, l) \<in> set (List.enumerate 0 ?links)"
      and "getAttribute l ''href'' = Some x" and "url c = resolveUrl h x base"
      using processLinks_link by blast
    then show "index c < length ?links \<and>
         (\<exists>x. getAttribute (?links ! index c) ''href'' = Some x \<and>
              url c = resolveUrl h x base \<and>
              (\<forall>e. urlHref h x base = Inl e \<longrightarrow> url c = x))"
      by (auto simp: in_set_enumerate0 resolveUrl_def)
  qed
qed

theorem resolveUrl_total_dedup_witness:
  "extractChapters (exampleHost plainPage) repeatedLinks [] getDefaultRules = Inr repeatedChapters \<and>
   urlHref (exampleHost plainPage) ''c2'' [] = Inl ''Invalid URL'' \<and>
   resolveUrl (exampleHost plainPage) ''c2'' [] = ''c2'' \<and>
   distinct (map url repeatedChapters) \<and>
   set (map url repeatedChapters) =
     set (map (\<lambda>x. resolveUrl (exampleHost plainPage) x [])
            (linkHrefs (allChapterLinks repeatedLinks getDefaultRules)))"
proof -
  have run: "extractChapters (exampleHost plainPage) repeatedLinks [] getDefaultRules
               = Inr repeatedChapters"
    by code_simp
  have fails: "urlHref (exampleHost plainPage) ''c2'' [] = Inl ''Invalid URL''"
    by code_simp
  show ?thesis
    using resolveUrl_total_dedup
      [of "exampleHost plainPage" "''c2''" "[]" repeatedLinks getDefaultRules repeatedChapters]
      run fails
    by blast
qed

subsection \<open>No chapters\<close>

lemma extractChapters_fails_iff:
  "extractChapters h doc base siteRules = Inl e \<longleftrightarrow>
     e = NoChaptersFound \<and> siteLinks doc siteRules = [] \<and> defaultLinks doc = [] \<and>
     aggressiveLinks doc = []"
  by (auto simp: extractChapters_def allChapterLinks_def split: if_splits)

lemma handlePackEpub_no_chapters:
  "currentChapters app = [] \<Longrightarrow> handlePackEpub h env metaInfo app = (Inl NothingSelected, app)"
  by (simp add: handlePackEpub_def getSelectedChapters_def)

text \<open>
  C5. \<open>extractChapters\<close> throws exactly when none of the three strategies finds a link,
  and what it throws then is "No chapters found on the page". When it does so for the
  page of the starting URL, \<open>handleLoadAndAnalyze\<close> ends with that error and an empty
  chapter list, the archive untouched; and \<open>handlePackEpub\<close> afterwards, whatever the
  check boxes and the metadata, returns no container.
\<close>

theorem no_chapters_found:
  "(extractChapters h doc base siteRules = Inl NoChaptersFound \<longleftrightarrow>
      siteLinks doc siteRules = [] \<and> defaultLinks doc = [] \<and> aggressiveLinks doc = []) \<and>
   (\<forall>e. extractChapters h doc base siteRules = Inl e \<longrightarrow> e = NoChaptersFound) \<and>
   (trim startingUrl \<noteq> [] \<and> pageHtml responses = Some html \<and> parseHTML h html = Inr page0 \<and>
    urlHostname h (trim startingUrl) = Inr hostname \<and>
    extractChapters h page0 (trim startingUrl) (rulesFor hostname) = Inl NoChaptersFound \<longrightarrow>
      fst (handleLoadAndAnalyze h responses answers startingUrl app)
        = Some (ParserFailed NoChaptersFound) \<and>
      currentChapters (snd (handleLoadAndAnalyze h responses answers startingUrl app)) = [] \<and>
      archive (snd (handleLoadAndAnalyze h responses answers startingUrl app)) = archive app \<and>
      (\<forall>env metaInfo boxes.
         fst (handlePackEpub h env metaInfo
                ((snd (handleLoadAndAnalyze h responses answers startingUrl app))
                   \<lparr>checkboxes := boxes\<rparr>))
           = Inl NothingSelected))"
proof (intro conjI impI)
  show "extractChapters h doc base siteRules = Inl NoChaptersFound \<longleftrightarrow>
      siteLinks doc siteRules = [] \<and> defaultLinks doc = [] \<and> aggressiveLinks doc = []"
    by (simp add: extractChapters_fails_iff)
  show "\<forall>e. extractChapters h doc base siteRules = Inl e \<longrightarrow> e = NoChaptersFound"
    by (simp add: extractChapters_fails_iff)
next
  assume a: "trim startingUrl \<noteq> [] \<and> pageHtml responses = Some html \<and>
    parseHTML h html = Inr page0 \<and> urlHostname h (trim startingUrl) = Inr hostname \<and>
    extractChapters h page0 (trim startingUrl) (rulesFor hostname) = Inl NoChaptersFound"
  then have parse: "parsePage h responses (trim startingUrl) = Inl (ParserFailed NoChaptersFound)"
    by (simp add: parsePage_def)
  have valid: "isValidUrl h (trim startingUrl)"
    using a by (simp add: isValidUrl_def)
  have run: "handleLoadAndAnalyze h responses answers startingUrl app =
      (Some (ParserFailed NoChaptersFound), app\<lparr>currentChapters := [], checkboxes := (\<lambda>i. None)\<rparr>)"
    using a parse valid by (simp add: handleLoadAndAnalyze_def)
  show "fst (handleLoadAndAnalyze h responses answers startingUrl app)
        = Some (ParserFailed NoChaptersFound)"
    by (simp add: run)
  show "currentChapters (snd (handleLoadAndAnalyze h responses answers startingUrl app)) = []"
    by (simp add: run)
  show "archive (snd (handleLoadAndAnalyze h responses answers startingUrl app)) = archive app"
    by (simp add: run)
  show "\<forall>env metaInfo boxes.
         fst (handlePackEpub h env metaInfo
                ((snd (handleLoadAndAnalyze h responses answers startingUrl app))
                   \<lparr>checkboxes := boxes\<rparr>))
           = Inl NothingSelected"
    by (simp add: run handlePackEpub_no_chapters)
qed

theorem no_chapters_found_witness:
  "trim ''http://n.org/novel'' \<noteq> [] \<and>
   pageHtml [Status 503, Body ''<p>hello</p>''] = Some ''<p>hello</p>'' \<and>
   parseHTML (exampleHost plainPage) ''<p>hello</p>'' = Inr plainPage \<and>
   urlHostname (exampleHost plainPage) (trim ''http://n.org/novel'') = Inr ''n.org'' \<and>
   siteLinks plainPage (rulesFor ''n.org'') = [] \<and> defaultLinks plainPage = [] \<and>
   aggressiveLinks plainPage = [] \<and>
   extractChapters (exampleHost plainPage) plainPage (trim ''http://n.org/novel'') (rulesFor ''n.org'')
     = Inl NoChaptersFound \<and>
   fst (handleLoadAndAnalyze (exampleHost plainPage) [Status 503, Body ''<p>hello</p>'']
          (\<lambda>i k. []) ''http://n.org/novel'' emptyApp)
     = Some (ParserFailed NoChaptersFound) \<and>
   fst (handlePackEpub (exampleHost plainPage)
          \<lparr>now = ''2024-01-01T00:00:00.000Z'', bookIdentifier = ''0'', coverBytes = None\<rparr>
          \<lparr>metaTitle = ''T'', metaAuthor = ''A'', metaLanguage = ''en'', metaDescription = [],
           metaSubject = [], coverImageUrl = []\<rparr>
          ((snd (handleLoadAndAnalyze (exampleHost plainPage) [Status 503, Body ''<p>hello</p>'']
                   (\<lambda>i k. []) ''http://n.org/novel'' emptyApp))
             \<lparr>checkboxes := (\<lambda>i. Some True)\<rparr>))
     = Inl NothingSelected"
proof -
  have h1: "trim ''http://n.org/novel'' \<noteq> []" by code_simp
  have h2: "pageHtml [Status 503, Body ''<p>hello</p>''] = Some ''<p>hello</p>''" by simp
  have h3: "parseHTML (exampleHost plainPage) ''<p>hello</p>'' = Inr plainPage" by code_simp
  have h4: "urlHostname (exampleHost plainPage) (trim ''http://n.org/novel'') = Inr ''n.org''"
    by code_simp
  have h5: "siteLinks plainPage (rulesFor ''n.org'') = []" "defaultLinks plainPage = []"
    "aggressiveLinks plainPage = []"
    by code_simp+
  show ?thesis
    using no_chapters_found
      [of "exampleHost plainPage" plainPage "trim ''http://n.org/novel''" "rulesFor ''n.org''"
          "''http://n.org/novel''" "[Status 503, Body ''<p>hello</p>'']" "''<p>hello</p>''"
          plainPage "''n.org''" "\<lambda>i k. []" emptyApp]
      h1 h2 h3 h4 h5
    by blast
qed

subsection \<open>The order of the chapters\<close>















subsection \<open>The retry loop\<close>

lemma fetchChapterContent_unfold:
  "fetchChapterContent h answers chapter =
     (case attemptChapter h (answers 0) chapter of
        Inr c \<Rightarrow> \<lparr>thrown = None,
                  chapterAfter = chapter\<lparr>content := Some c, status := Completed\<rparr>,
                  trace = [Attempt 0, Sleep 1000]\<rparr>
      | Inl e0 \<Rightarrow>
          (case attemptChapter h (answers 1) chapter of
             Inr c \<Rightarrow> \<lparr>thrown = None,
                       chapterAfter = chapter\<lparr>content := Some c, status := Completed\<rparr>,
                       trace = [Attempt 0, Sleep 2000, Attempt 1, Sleep 1000]\<rparr>
           | Inl e1 \<Rightarrow>
               (case attemptChapter h (answers 2) chapter of
                  Inr c \<Rightarrow> \<lparr>thrown = None,
                            chapterAfter = chapter\<lparr>content := Some c, status := Completed\<rparr>,
                            trace = [Attempt 0, Sleep 2000, Attempt 1, Sleep 4000, Attempt 2,
                                     Sleep 1000]\<rparr>
                | Inl e2 \<Rightarrow> \<lparr>thrown = Some e2,
                             chapterAfter = chapter\<lparr>status := Errored, error := Some (message e2)\<rparr>,
                             trace = [Attempt 0, Sleep 2000, Attempt 1, Sleep 4000, Attempt 2]\<rparr>)))"
proof -
  have two: "fetchChapterLoop h answers chapter 2 =
     (case attemptChapter h (answers 2) chapter of
        Inr c \<Rightarrow> \<lparr>thrown = None,
                  chapterAfter = chapter\<lparr>content := Some c, status := Completed\<rparr>,
                  trace = [Attempt 2, Sleep 1000]\<rparr>
      | Inl e \<Rightarrow> \<lparr>thrown = Some e,
                  chapterAfter = chapter\<lparr>status := Errored, error := Some (message e)\<rparr>,
                  trace = [Attempt 2]\<rparr>)"
    by (subst fetchChapterLoop.simps) (simp add: maxRetries_def split: sum.splits)
  have one: "fetchChapterLoop h answers chapter 1 =
     (case attemptChapter h (answers 1) chapter of
        Inr c \<Rightarrow> \<lparr>thrown = None,
                  chapterAfter = chapter\<lparr>content := Some c, status := Completed\<rparr>,
                  trace = [Attempt 1, Sleep 1000]\<rparr>
      | Inl e \<Rightarrow> (fetchChapterLoop h answers chapter 2)
                  \<lparr>trace := Attempt 1 # Sleep 4000 # trace (fetchChapterLoop h answers chapter 2)\<rparr>)"
    by (subst fetchChapterLoop.simps)
      (simp add: maxRetries_def Let_def numeral_2_eq_2 split: sum.splits)
  have zero: "fetchChapterLoop h answers chapter 0 =
     (case attemptChapter h (answers 0) chapter of
        Inr c \<Rightarrow> \<lparr>thrown = None,
                  chapterAfter = chapter\<lparr>content := Some c, status := Completed\<rparr>,
                  trace = [Attempt 0, Sleep 1000]\<rparr>
      | Inl e \<Rightarrow> (fetchChapterLoop h answers chapter 1)
                  \<lparr>trace := Attempt 0 # Sleep 2000 # trace (fetchChapterLoop h answers chapter 1)\<rparr>)"
    by (subst fetchChapterLoop.simps) (simp add: maxRetries_def Let_def split: sum.splits)
  show ?thesis
    unfolding fetchChapterContent_def zero one two
    by (simp split: sum.splits)
qed

lemma fetchChapterContent_traces:
  "trace (fetchChapterContent h answers chapter) \<in>
     {[Attempt 0, Sleep 1000],
      [Attempt 0, Sleep 2000, Attempt 1, Sleep 1000],
      [Attempt 0, Sleep 2000, Attempt 1, Sleep 4000, Attempt 2, Sleep 1000],
      [Attempt 0, Sleep 2000, Attempt 1, Sleep 4000, Attempt 2]}"
  by (simp add: fetchChapterContent_unfold split: sum.splits)

lemma fetchAll_fold:
  "foldl (fetchStep h answers) (acc, s, e) ics =
     (acc @ map (\<lambda>ic. chapterAfter (fetchChapterContent h (answers (fst ic)) (snd ic))) ics,
      s + length (filter (\<lambda>ic. thrown (fetchChapterContent h (answers (fst ic)) (snd ic)) = None) ics),
      e + length (filter (\<lambda>ic. thrown (fetchChapterContent h (answers (fst ic)) (snd ic)) \<noteq> None) ics))"
  by (induction ics arbitrary: acc s e) (simp_all add: fetchStep_def Let_def)

lemma fetchAllChapters_map:
  "fetchAllChapters h answers chapters =
     (map (\<lambda>ic. chapterAfter (fetchChapterContent h (answers (fst ic)) (snd ic)))
        (List.enumerate 0 chapters),
      length (filter (\<lambda>ic. thrown (fetchChapterContent h (answers (fst ic)) (snd ic)) = None)
                (List.enumerate 0 chapters)),
      length (filter (\<lambda>ic. thrown (fetchChapterContent h (answers (fst ic)) (snd ic)) \<noteq> None)
                (List.enumerate 0 chapters)))"
  by (simp add: fetchAllChapters_def fetchAll_fold)

text \<open>
  C9. A chapter is attempted at most three times; the delays before the retries are 2000
  and then 4000 milliseconds. When all three attempts fail, the chapter has the status
  'error' and its error field is the message of the third failure, and the exception is
  thrown on; whenever the call throws, this is the case. \<open>fetchAllChapters\<close> treats every
  chapter of the list in turn, whatever happened to the ones before: the chapter at
  position \<open>i\<close> ends as its own \<open>fetchChapterContent\<close> leaves it.
\<close>

theorem retry_policy:
  "length (attempts (trace (fetchChapterContent h answers chapter))) \<le> 3 \<and>
   sorted_wrt (<) (retryDelays (trace (fetchChapterContent h answers chapter))) \<and>
   trace (fetchChapterContent h answers chapter) \<in>
     {[Attempt 0, Sleep 1000],
      [Attempt 0, Sleep 2000, Attempt 1, Sleep 1000],
      [Attempt 0, Sleep 2000, Attempt 1, Sleep 4000, Attempt 2, Sleep 1000],
      [Attempt 0, Sleep 2000, Attempt 1, Sleep 4000, Attempt 2]} \<and>
   (attemptChapter h (answers 0) chapter = Inl e0 \<and>
    attemptChapter h (answers 1) chapter = Inl e1 \<and>
    attemptChapter h (answers 2) chapter = Inl e2 \<longrightarrow>
      thrown (fetchChapterContent h answers chapter) = Some e2 \<and>
      status (chapterAfter (fetchChapterContent h answers chapter)) = Errored \<and>
      error (chapterAfter (fetchChapterContent h answers chapter)) = Some (message e2) \<and>
      retryDelays (trace (fetchChapterContent h answers chapter)) = [2000, 4000]) \<and>
   (thrown (fetchChapterContent h answers chapter) = Some e \<longrightarrow>
      attempts (trace (fetchChapterContent h answers chapter)) = [0, 1, 2] \<and>
      attemptChapter h (answers 2) chapter = Inl e \<and>
      status (chapterAfter (fetchChapterContent h answers chapter)) = Errored \<and>
      error (chapterAfter (fetchChapterContent h answers chapter)) = Some (message e)) \<and>
   (thrown (fetchChapterContent h answers chapter) = None \<longrightarrow>
      status (chapterAfter (fetchChapterContent h answers chapter)) = Completed) \<and>
   fst (fetchAllChapters h allAnswers chapters) =
     map (\<lambda>ic. chapterAfter (fetchChapterContent h (allAnswers (fst ic)) (snd ic)))
       (List.enumerate 0 chapters) \<and>
   length (fst (fetchAllChapters h allAnswers chapters)) = length chapters"
proof (intro conjI impI)
  show "length (attempts (trace (fetchChapterContent h answers chapter))) \<le> 3"
    by (simp add: fetchChapterContent_unfold split: sum.splits)
  show "sorted_wrt (<) (retryDelays (trace (fetchChapterContent h answers chapter)))"
    by (simp add: fetchChapterContent_unfold split: sum.splits)
  show "trace (fetchChapterContent h answers chapter) \<in>
     {[Attempt 0, Sleep 1000],
      [Attempt 0, Sleep 2000, Attempt 1, Sleep 1000],
      [Attempt 0, Sleep 2000, Attempt 1, Sleep 4000, Attempt 2, Sleep 1000],
      [Attempt 0, Sleep 2000, Attempt 1, Sleep 4000, Attempt 2]}"
    by (rule fetchChapterContent_traces)
  show "fst (fetchAllChapters h allAnswers chapters) =
     map (\<lambda>ic. chapterAfter (fetchChapterContent h (allAnswers (fst ic)) (snd ic)))
       (List.enumerate 0 chapters)"
    by (simp add: fetchAllChapters_map)
  show "length (fst (fetchAllChapters h allAnswers chapters)) = length chapters"
    by (simp add: fetchAllChapters_map)
next
  assume "attemptChapter h (answers 0) chapter = Inl e0 \<and>
    attemptChapter h (answers 1) chapter = Inl e1 \<and>
    attemptChapter h (answers 2) chapter = Inl e2"
  then have r: "fetchChapterContent h answers chapter =
      \<lparr>thrown = Some e2,
       chapterAfter = chapter\<lparr>status := Errored, error := Some (message e2)\<rparr>,
       trace = [Attempt 0, Sleep 2000, Attempt 1, Sleep 4000, Attempt 2]\<rparr>"
    by (simp add: fetchChapterContent_unfold)
  show "thrown (fetchChapterContent h answers chapter) = Some e2"
    and "status (chapterAfter (fetchChapterContent h answers chapter)) = Errored"
    and "error (chapterAfter (fetchChapterContent h answers chapter)) = Some (message e2)"
    and "retryDelays (trace (fetchChapterContent h answers chapter)) = [2000, 4000]"
    by (simp_all add: r)
next
  assume t: "thrown (fetchChapterContent h answers chapter) = Some e"
  then show "attempts (trace (fetchChapterContent h answers chapter)) = [0, 1, 2]"
    by (simp add: fetchChapterContent_unfold split: sum.splits)
  from t show "attemptChapter h (answers 2) chapter = Inl e"
    by (simp add: fetchChapterContent_unfold split: sum.splits)
  from t show "status (chapterAfter (fetchChapterContent h answers chapter)) = Errored"
    by (simp add: fetchChapterContent_unfold split: sum.splits)
  from t show "error (chapterAfter (fetchChapterContent h answers chapter)) = Some (message e)"
    by (simp add: fetchChapterContent_unfold split: sum.splits)
next
  assume "thrown (fetchChapterContent h answers chapter) = None"
  then show "status (chapterAfter (fetchChapterContent h answers chapter)) = Completed"
    by (simp add: fetchChapterContent_unfold split: sum.splits)
qed

theorem retry_policy_witness:
  "attemptChapter (exampleHost chapterPage) failingProxies firstChapter
     = Inl (FetchFailure (Some ''HTTP error! status: 500'')) \<and>
   thrown (fetchChapterContent (exampleHost chapterPage) (\<lambda>k. failingProxies) firstChapter)
     = Some (FetchFailure (Some ''HTTP error! status: 500'')) \<and>
   status (chapterAfter
       (fetchChapterContent (exampleHost chapterPage) (\<lambda>k. failingProxies) firstChapter))
     = Errored \<and>
   error (chapterAfter
       (fetchChapterContent (exampleHost chapterPage) (\<lambda>k. failingProxies) firstChapter))
     = Some ''Failed to fetch content: HTTP error! status: 500'' \<and>
   attempts (trace
       (fetchChapterContent (exampleHost chapterPage) (\<lambda>k. failingProxies) firstChapter))
     = [0, 1, 2] \<and>
   thrown (fetchChapterContent (exampleHost chapterPage) (\<lambda>k. answeringProxies) firstChapter)
     = None \<and>
   status (chapterAfter
       (fetchChapterContent (exampleHost chapterPage) (\<lambda>k. answeringProxies) firstChapter))
     = Completed \<and>
   map status (fst (fetchAllChapters (exampleHost chapterPage)
       (\<lambda>i k. if i = 0 then failingProxies else answeringProxies) [firstChapter, firstChapter]))
     = [Errored, Completed]"
proof -
  let ?e = "FetchFailure (Some ''HTTP error! status: 500'')"
  have fail: "attemptChapter (exampleHost chapterPage) failingProxies firstChapter = Inl ?e"
    by code_simp
  have ok: "thrown (fetchChapterContent (exampleHost chapterPage) (\<lambda>k. answeringProxies) firstChapter)
     = None"
    by code_simp
  note failing = retry_policy
    [of "exampleHost chapterPage" "\<lambda>k. failingProxies" firstChapter ?e ?e ?e ?e
        "\<lambda>i k. if i = 0 then failingProxies else answeringProxies" "[firstChapter, firstChapter]"]
  note answering = retry_policy
    [of "exampleHost chapterPage" "\<lambda>k. answeringProxies" firstChapter ?e ?e ?e ?e
        "\<lambda>i k. if i = 0 then failingProxies else answeringProxies" "[firstChapter, firstChapter]"]
  have thrown: "thrown (fetchChapterContent (exampleHost chapterPage) (\<lambda>k. failingProxies) firstChapter)
     = Some ?e"
    using failing fail by blast
  have "error (chapterAfter
       (fetchChapterContent (exampleHost chapterPage) (\<lambda>k. failingProxies) firstChapter))
     = Some (message ?e)"
    using failing fail by blast
  then have msg: "error (chapterAfter
       (fetchChapterContent (exampleHost chapterPage) (\<lambda>k. failingProxies) firstChapter))
     = Some ''Failed to fetch content: HTTP error! status: 500''"
    by simp
  have all: "map status (fst (fetchAllChapters (exampleHost chapterPage)
       (\<lambda>i k. if i = 0 then failingProxies else answeringProxies) [firstChapter, firstChapter]))
     = [Errored, Completed]"
    using failing answering fail ok by (simp add: enumerate_eq_zip upt_rec)
  show ?thesis
    using failing answering fail ok thrown msg all by blast
qed

subsection \<open>Decimal numbers\<close>

lemma digitVal_digitChar: "d < 10 \<Longrightarrow> digitVal (digitChar d) = d"
  by (simp add: digitVal_def digitChar_def)

lemma readNat_showNat: "foldl (\<lambda>a c. 10 * a + digitVal c) 0 (showNat n) = n"
proof (induction n rule: showNat.induct)
  case (1 n)
  show ?case
  proof (cases "n < 10")
    case True
    then show ?thesis by (simp add: showNat.simps [of n] digitVal_digitChar)
  next
    case False
    with 1 have "foldl (\<lambda>a c. 10 * a + digitVal c) 0 (showNat (n div 10)) = n div 10"
      by simp
    with False show ?thesis
      by (simp add: showNat.simps [of n] digitVal_digitChar)
  qed
qed

lemma showNat_inject: "showNat m = showNat n \<Longrightarrow> m = n"
  by (metis readNat_showNat)

lemma chapterFile_inject: "chapterFile i = chapterFile j \<Longrightarrow> i = j"
  using showNat_inject [of "i + 1" "j + 1"] by (simp add: chapterFile_def)

lemma chapterFile_not_fixed:
  "chapterFile i \<noteq> ''OEBPS/content.opf''" "chapterFile i \<noteq> ''OEBPS/toc.ncx''"
  "chapterFile i \<noteq> ''OEBPS/style.css''" "chapterFile i \<noteq> ''OEBPS/cover.jpg''"
  "chapterFile i \<noteq> ''META-INF/container.xml''" "chapterFile i \<noteq> ''META-INF/''"
  "chapterFile i \<noteq> ''OEBPS/''"
  by (simp_all add: chapterFile_def)

subsection \<open>The archive\<close>

lemma write_other:
  assumes f: "\<And>z i c. f z (i, c) = z(chapterFile i \<mapsto> chapterXhtml h c)"
    and other: "\<forall>k < length chapters. name \<noteq> chapterFile (n + k)"
  shows "foldl f z (List.enumerate n chapters) name = z name"
  using other
proof (induction chapters arbitrary: z n)
  case Nil
  show ?case by simp
next
  case (Cons c cs)
  have "\<forall>k < length cs. name \<noteq> chapterFile (Suc n + k)"
    using Cons.prems by auto
  then have "foldl f (f z (n, c)) (List.enumerate (Suc n) cs) name = f z (n, c) name"
    by (rule Cons.IH)
  moreover have "name \<noteq> chapterFile n"
    using Cons.prems by force
  ultimately show ?case by (simp add: f)
qed

lemma write_file:
  assumes f: "\<And>z i c. f z (i, c) = z(chapterFile i \<mapsto> chapterXhtml h c)"
    and k: "k < length chapters"
  shows "foldl f z (List.enumerate n chapters) (chapterFile (n + k)) = Some (chapterXhtml h (chapters ! k))"
  using k
proof (induction chapters arbitrary: z n k)
  case Nil
  then show ?case by simp
next
  case (Cons c cs)
  show ?case
  proof (cases k)
    case 0
    have "\<forall>j < length cs. chapterFile n \<noteq> chapterFile (Suc n + j)"
      using chapterFile_inject by fastforce
    then have "foldl f (f z (n, c)) (List.enumerate (Suc n) cs) (chapterFile n) = f z (n, c) (chapterFile n)"
      by (rule write_other [OF f])
    then show ?thesis by (simp add: 0 f)
  next
    case (Suc k')
    then have "k' < length cs" using Cons.prems by simp
    then have "foldl f (f z (n, c)) (List.enumerate (Suc n) cs) (chapterFile (Suc n + k'))
        = Some (chapterXhtml h (cs ! k'))"
      by (rule Cons.IH)
    then show ?thesis by (simp add: Suc)
  qed
qed

lemma addChapters_at:
  assumes "k < length chapters"
  shows "addChapters h chapters z (chapterFile k) = Some (chapterXhtml h (chapters ! k))"
  unfolding addChapters_def
  using write_file [where f = "\<lambda>z (i, chapter). z(chapterFile i \<mapsto> chapterXhtml h chapter)"
      and n = 0 and h = h, OF _ assms]
  by simp

lemma addChapters_elsewhere:
  assumes "\<forall>k < length chapters. name \<noteq> chapterFile k"
  shows "addChapters h chapters z name = z name"
  unfolding addChapters_def
  using write_other [where f = "\<lambda>z (i, chapter). z(chapterFile i \<mapsto> chapterXhtml h chapter)"
      and n = 0 and h = h and chapters = chapters and name = name] assms
  by simp

lemma generateEpub_result:
  "chapters \<noteq> [] \<Longrightarrow>
     generateEpub h env metaInfo chapters z =
       Inr ((if coverImageUrl metaInfo \<noteq> [] then addCoverImage env else id)
              (addChapters h chapters
                 (addMetadata env metaInfo chapters (createEpubStructure z))))"
  by (simp add: generateEpub_def Let_def)

lemma addCoverImage_other: "name \<noteq> ''OEBPS/cover.jpg'' \<Longrightarrow> addCoverImage env z name = z name"
  by (simp add: addCoverImage_def split: option.splits)

lemma generateEpub_files:
  assumes "generateEpub h env metaInfo chapters z = Inr epub"
  shows "epub ''OEBPS/content.opf'' = Some (contentOpf env metaInfo chapters)"
    and "epub ''OEBPS/toc.ncx'' = Some (tocNcx env metaInfo chapters)"
    and "k < length chapters \<Longrightarrow> epub (chapterFile k) = Some (chapterXhtml h (chapters ! k))"
    and "length chapters \<le> k \<Longrightarrow> epub (chapterFile k) = z (chapterFile k)"
proof -
  have ne: "chapters \<noteq> []"
    using assms by (auto simp: generateEpub_def)
  have epub: "epub = (if coverImageUrl metaInfo \<noteq> [] then addCoverImage env else id)
              (addChapters h chapters
                 (addMetadata env metaInfo chapters (createEpubStructure z)))"
    using assms generateEpub_result [OF ne, of h env metaInfo z] by simp
  have fixed: "\<forall>k < length chapters. ''OEBPS/content.opf'' \<noteq> chapterFile k"
    "\<forall>k < length chapters. ''OEBPS/toc.ncx'' \<noteq> chapterFile k"
    using chapterFile_not_fixed by metis+
  show "epub ''OEBPS/content.opf'' = Some (contentOpf env metaInfo chapters)"
    by (simp add: epub addCoverImage_other addChapters_elsewhere [OF fixed(1)] addMetadata_def)
  show "epub ''OEBPS/toc.ncx'' = Some (tocNcx env metaInfo chapters)"
    by (simp add: epub addCoverImage_other addChapters_elsewhere [OF fixed(2)] addMetadata_def)
  show "epub (chapterFile k) = Some (chapterXhtml h (chapters ! k))" if "k < length chapters"
    using that by (simp add: epub addCoverImage_other chapterFile_not_fixed addChapters_at)
  show "epub (chapterFile k) = z (chapterFile k)" if "length chapters \<le> k"
  proof -
    have "\<forall>j < length chapters. chapterFile k \<noteq> chapterFile j"
      using that chapterFile_inject by fastforce
    then show ?thesis
      by (simp add: epub addCoverImage_other chapterFile_not_fixed addChapters_elsewhere
          addMetadata_def createEpubStructure_def)
  qed
qed

lemma join_Cons: "join sep (x # xs) = x @ concat (map (\<lambda>y. sep @ y) xs)"
  by (induction xs arbitrary: x) simp_all

lemma map_enumerate_index:
  "map (\<lambda>(i, c). f i c) (List.enumerate 0 cs) = map (\<lambda>k. f k (cs ! k)) [0..<length cs]"
  by (rule nth_equalityI) (simp_all add: nth_enumerate_eq)

lemma join_indexed:
  assumes "cs \<noteq> []"
  shows "join sep (map (\<lambda>(i, c). f i c) (List.enumerate 0 cs))
       = f 0 (cs ! 0) @ concat (map (\<lambda>k. sep @ f k (cs ! k)) [1..<length cs])"
proof -
  have "[0..<length cs] = 0 # [1..<length cs]"
    using assms by (simp add: upt_conv_Cons)
  then show ?thesis
    by (simp add: map_enumerate_index join_Cons comp_def)
qed

lemma opfSpine_items:
  \<open>chapters \<noteq> [] \<Longrightarrow>
     opfSpine chapters =
       ''    <spine toc="ncx">\<newline>'' @
       ''        '' @ spineItem 0 @
         concat (map (\<lambda>k. ''\<newline>        '' @ spineItem k) [1..<length chapters]) @ ''\<newline>'' @
       ''    </spine>\<newline>''\<close>
  using join_indexed [of chapters _ "\<lambda>i c. spineItem i"]
  by (simp add: opfSpine_def spineItems_def)

lemma opfManifest_items:
  \<open>chapters \<noteq> [] \<Longrightarrow>
     opfManifest metaInfo chapters =
       ''    <manifest>\<newline>'' @
       ''        <item id="ncx" href="toc.ncx" media-type="application/x-dtbncx+xml"/>\<newline>'' @
       ''        <item id="css" href="style.css" media-type="text/css"/>\<newline>'' @
       ''        '' @ (if coverImageUrl metaInfo \<noteq> []
                      then ''<item id="cover-image" href="cover.jpg" media-type="image/jpeg"/>'' else []) @ ''\<newline>'' @
       ''        '' @ manifestItem 0 @
         concat (map (\<lambda>k. ''\<newline>        '' @ manifestItem k) [1..<length chapters]) @ ''\<newline>'' @
       ''    </manifest>\<newline>''\<close>
  using join_indexed [of chapters _ "\<lambda>i c. manifestItem i"]
  by (simp add: opfManifest_def manifestItems_def)

lemma ncxNavMap_points:
  \<open>chapters \<noteq> [] \<Longrightarrow>
     ncxNavMap chapters =
       ''    <navMap>\<newline>'' @
       ''        '' @ navPoint 0 (chapters ! 0) @
         concat (map (\<lambda>k. ''\<newline>        '' @ navPoint k (chapters ! k)) [1..<length chapters]) @ ''\<newline>'' @
       ''    </navMap>\<newline>''\<close>
  using join_indexed [of chapters _ navPoint]
  by (simp add: ncxNavMap_def navPoints_def)

text \<open>
  C1. \<open>generateEpub\<close> returns a container for every list of chapters that is not empty.
  In the container the spine of the package document is the list of the entries
  \<open>itemref\<close> for the positions \<open>0\<close> to \<open>n - 1\<close> of the list passed, in that order and
  nothing else; the entry for position \<open>k\<close> names the manifest item \<open>chapter-(k+1)\<close>,
  which the manifest lists at the same position and whose file holds the document of the
  chapter passed at position \<open>k\<close>, and different positions have different names. The
  navigation map of the navigation document is the list of the entries \<open>navPoint\<close> for the
  same positions in the same order, the one for position \<open>k\<close> with play order \<open>k+1\<close>,
  the escaped title of that chapter, and that file as its content.
\<close>

theorem spine_and_navigation:
  \<open>(chapters = [] \<longrightarrow>
      generateEpub h env metaInfo chapters z = Inl (GenerationFailed NoChaptersToGenerate)) \<and>
    (chapters \<noteq> [] \<longrightarrow> (\<exists>epub. generateEpub h env metaInfo chapters z = Inr epub)) \<and>
    (generateEpub h env metaInfo chapters z = Inr epub \<longrightarrow>
      epub ''OEBPS/content.opf'' =
        Some (opfMetadata env metaInfo @
              ''    <manifest>\<newline>'' @
              ''        <item id="ncx" href="toc.ncx" media-type="application/x-dtbncx+xml"/>\<newline>'' @
              ''        <item id="css" href="style.css" media-type="text/css"/>\<newline>'' @
              ''        '' @ (if coverImageUrl metaInfo \<noteq> []
                             then ''<item id="cover-image" href="cover.jpg" media-type="image/jpeg"/>''
                             else []) @ ''\<newline>'' @
              ''        '' @ manifestItem 0 @
                concat (map (\<lambda>k. ''\<newline>        '' @ manifestItem k) [1..<length chapters]) @
                ''\<newline>'' @
              ''    </manifest>\<newline>'' @
              ''    <spine toc="ncx">\<newline>'' @
              ''        '' @ spineItem 0 @
                concat (map (\<lambda>k. ''\<newline>        '' @ spineItem k) [1..<length chapters]) @
                ''\<newline>'' @
              ''    </spine>\<newline>'' @
              ''</package>'') \<and>
      epub ''OEBPS/toc.ncx'' =
        Some (ncxHead env metaInfo @
              ''    <navMap>\<newline>'' @
              ''        '' @ navPoint 0 (chapters ! 0) @
                concat (map (\<lambda>k. ''\<newline>        '' @ navPoint k (chapters ! k))
                          [1..<length chapters]) @
                ''\<newline>'' @
              ''    </navMap>\<newline>'' @
              ''</ncx>'') \<and>
      (\<forall>k. spineItem k = ''<itemref idref="chapter-'' @ showNat (k + 1) @ ''"/>'' \<and>
           manifestItem k =
             ''<item id="chapter-'' @ showNat (k + 1) @ ''" href="chapter-'' @ showNat (k + 1) @
             ''.xhtml" media-type="application/xhtml+xml"/>'' \<and>
           (\<forall>j. showNat (j + 1) = showNat (k + 1) \<longrightarrow> j = k)) \<and>
      (\<forall>k < length chapters.
         epub (''OEBPS/chapter-'' @ showNat (k + 1) @ ''.xhtml'')
           = Some (chapterXhtml h (chapters ! k)) \<and>
         navPoint k (chapters ! k) =
           ''\<newline>        <navPoint id="nav-'' @ showNat (k + 1) @ ''" playOrder="'' @
             showNat (k + 1) @ ''">\<newline>'' @
           ''            <navLabel>\<newline>'' @
           ''                <text>'' @ escapeXml (title (chapters ! k)) @ ''</text>\<newline>'' @
           ''            </navLabel>\<newline>'' @
           ''            <content src="chapter-'' @ showNat (k + 1) @ ''.xhtml"/>\<newline>'' @
           ''        </navPoint>''))\<close>
proof (intro conjI impI allI)
  assume "chapters = []"
  then show "generateEpub h env metaInfo chapters z = Inl (GenerationFailed NoChaptersToGenerate)"
    by (simp add: generateEpub_def)
next
  assume "chapters \<noteq> []"
  then show "\<exists>epub. generateEpub h env metaInfo chapters z = Inr epub"
    by (simp add: generateEpub_def)
next
  assume run: "generateEpub h env metaInfo chapters z = Inr epub"
  then have ne: "chapters \<noteq> []"
    by (auto simp: generateEpub_def)
  show \<open>epub ''OEBPS/content.opf'' =
        Some (opfMetadata env metaInfo @
              ''    <manifest>\<newline>'' @
              ''        <item id="ncx" href="toc.ncx" media-type="application/x-dtbncx+xml"/>\<newline>'' @
              ''        <item id="css" href="style.css" media-type="text/css"/>\<newline>'' @
              ''        '' @ (if coverImageUrl metaInfo \<noteq> []
                             then ''<item id="cover-image" href="cover.jpg" media-type="image/jpeg"/>''
                             else []) @ ''\<newline>'' @
              ''        '' @ manifestItem 0 @
                concat (map (\<lambda>k. ''\<newline>        '' @ manifestItem k) [1..<length chapters]) @
                ''\<newline>'' @
              ''    </manifest>\<newline>'' @
              ''    <spine toc="ncx">\<newline>'' @
              ''        '' @ spineItem 0 @
                concat (map (\<lambda>k. ''\<newline>        '' @ spineItem k) [1..<length chapters]) @
                ''\<newline>'' @
              ''    </spine>\<newline>'' @
              ''</package>'')\<close>
    unfolding generateEpub_files(1) [OF run] contentOpf_def
      opfManifest_items [OF ne] opfSpine_items [OF ne]
    by simp
  show \<open>epub ''OEBPS/toc.ncx'' =
        Some (ncxHead env metaInfo @
              ''    <navMap>\<newline>'' @
              ''        '' @ navPoint 0 (chapters ! 0) @
                concat (map (\<lambda>k. ''\<newline>        '' @ navPoint k (chapters ! k))
                          [1..<length chapters]) @
                ''\<newline>'' @
              ''    </navMap>\<newline>'' @
              ''</ncx>'')\<close>
    unfolding generateEpub_files(2) [OF run] tocNcx_def ncxNavMap_points [OF ne]
    by simp
  {
    fix k
    show \<open>spineItem k = ''<itemref idref="chapter-'' @ showNat (k + 1) @ ''"/>''\<close>
      by (simp add: spineItem_def)
    show \<open>manifestItem k =
             ''<item id="chapter-'' @ showNat (k + 1) @ ''" href="chapter-'' @ showNat (k + 1) @
             ''.xhtml" media-type="application/xhtml+xml"/>''\<close>
      by (simp add: manifestItem_def)
    fix j
    assume "showNat (j + 1) = showNat (k + 1)"
    then show "j = k"
      using showNat_inject [of "j + 1" "k + 1"] by simp
  }
  {
    fix k
    assume k: "k < length chapters"
    show "epub (''OEBPS/chapter-'' @ showNat (k + 1) @ ''.xhtml'')
           = Some (chapterXhtml h (chapters ! k))"
      using generateEpub_files(3) [OF run k] by (simp add: chapterFile_def)
    show \<open>navPoint k (chapters ! k) =
           ''\<newline>        <navPoint id="nav-'' @ showNat (k + 1) @ ''" playOrder="'' @
             showNat (k + 1) @ ''">\<newline>'' @
           ''            <navLabel>\<newline>'' @
           ''                <text>'' @ escapeXml (title (chapters ! k)) @ ''</text>\<newline>'' @
           ''            </navLabel>\<newline>'' @
           ''            <content src="chapter-'' @ showNat (k + 1) @ ''.xhtml"/>\<newline>'' @
           ''        </navPoint>''\<close>
      by (simp add: navPoint_def)
  }
qed

theorem spine_and_navigation_witness:
  \<open>generateEpub (exampleHost plainPage) bookEnv bookInfo twoChapters Map.empty =
      Inr (addChapters (exampleHost plainPage) twoChapters
             (addMetadata bookEnv bookInfo twoChapters (createEpubStructure Map.empty))) \<and>
    addChapters (exampleHost plainPage) twoChapters
        (addMetadata bookEnv bookInfo twoChapters (createEpubStructure Map.empty))
        ''OEBPS/content.opf''
      = Some (opfMetadata bookEnv bookInfo @
              ''    <manifest>\<newline>'' @
              ''        <item id="ncx" href="toc.ncx" media-type="application/x-dtbncx+xml"/>\<newline>'' @
              ''        <item id="css" href="style.css" media-type="text/css"/>\<newline>'' @
              ''        \<newline>'' @
              ''        <item id="chapter-1" href="chapter-1.xhtml" media-type="application/xhtml+xml"/>\<newline>'' @
              ''        <item id="chapter-2" href="chapter-2.xhtml" media-type="application/xhtml+xml"/>\<newline>'' @
              ''    </manifest>\<newline>'' @
              ''    <spine toc="ncx">\<newline>'' @
              ''        <itemref idref="chapter-1"/>\<newline>'' @
              ''        <itemref idref="chapter-2"/>\<newline>'' @
              ''    </spine>\<newline>'' @
              ''</package>'') \<and>
    addChapters (exampleHost plainPage) twoChapters
        (addMetadata bookEnv bookInfo twoChapters (createEpubStructure Map.empty))
        ''OEBPS/toc.ncx''
      = Some (ncxHead bookEnv bookInfo @
              ''    <navMap>\<newline>'' @
              ''        \<newline>'' @
              ''        <navPoint id="nav-1" playOrder="1">\<newline>'' @
              ''            <navLabel>\<newline>'' @
              ''                <text>Chapter 1</text>\<newline>'' @
              ''            </navLabel>\<newline>'' @
              ''            <content src="chapter-1.xhtml"/>\<newline>'' @
              ''        </navPoint>\<newline>'' @
              ''        \<newline>'' @
              ''        <navPoint id="nav-2" playOrder="2">\<newline>'' @
              ''            <navLabel>\<newline>'' @
              ''                <text>Chapter 2: Tom &amp; Jerry</text>\<newline>'' @
              ''            </navLabel>\<newline>'' @
              ''            <content src="chapter-2.xhtml"/>\<newline>'' @
              ''        </navPoint>\<newline>'' @
              ''    </navMap>\<newline>'' @
              ''</ncx>'') \<and>
    addChapters (exampleHost plainPage) twoChapters
        (addMetadata bookEnv bookInfo twoChapters (createEpubStructure Map.empty))
        ''OEBPS/chapter-2.xhtml''
      = Some (chapterXhtml (exampleHost plainPage) (twoChapters ! 1))\<close>
proof -
  let ?epub = "addChapters (exampleHost plainPage) twoChapters
             (addMetadata bookEnv bookInfo twoChapters (createEpubStructure Map.empty))"
  have run: "generateEpub (exampleHost plainPage) bookEnv bookInfo twoChapters Map.empty = Inr ?epub"
    by (simp add: generateEpub_def twoChapters_def bookInfo_def)
  have len: "length twoChapters = 2" "[1..<2] = [1::nat]"
    by (simp_all add: twoChapters_def upt_conv_Cons)
  have cover: "coverImageUrl bookInfo = []"
    by (simp add: bookInfo_def)
  have items: \<open>manifestItem 0 =
      ''<item id="chapter-1" href="chapter-1.xhtml" media-type="application/xhtml+xml"/>''\<close>
    \<open>manifestItem (Suc 0) =
      ''<item id="chapter-2" href="chapter-2.xhtml" media-type="application/xhtml+xml"/>''\<close>
    \<open>spineItem 0 = ''<itemref idref="chapter-1"/>''\<close>
    \<open>spineItem (Suc 0) = ''<itemref idref="chapter-2"/>''\<close>
    by code_simp+
  have points: \<open>navPoint 0 (twoChapters ! 0) =
      ''\<newline>        <navPoint id="nav-1" playOrder="1">\<newline>'' @
      ''            <navLabel>\<newline>'' @
      ''                <text>Chapter 1</text>\<newline>'' @
      ''            </navLabel>\<newline>'' @
      ''            <content src="chapter-1.xhtml"/>\<newline>'' @
      ''        </navPoint>''\<close>
    \<open>navPoint (Suc 0) (twoChapters ! Suc 0) =
      ''\<newline>        <navPoint id="nav-2" playOrder="2">\<newline>'' @
      ''            <navLabel>\<newline>'' @
      ''                <text>Chapter 2: Tom &amp; Jerry</text>\<newline>'' @
      ''            </navLabel>\<newline>'' @
      ''            <content src="chapter-2.xhtml"/>\<newline>'' @
      ''        </navPoint>''\<close>
    by code_simp+
  have two: "showNat (1 + 1) = ''2''"
    by code_simp
  have one: "(1::nat) < length twoChapters"
    by (simp add: len)
  note facts = spine_and_navigation
      [of twoChapters "exampleHost plainPage" bookEnv bookInfo Map.empty ?epub]
  have second: "?epub (''OEBPS/chapter-'' @ showNat (1 + 1) @ ''.xhtml'')
      = Some (chapterXhtml (exampleHost plainPage) (twoChapters ! 1))"
    using facts run one by blast
  have docs: "?epub ''OEBPS/content.opf'' = Some (opfMetadata bookEnv bookInfo @
              ''    <manifest>\<newline>'' @
              ''        <item id=\"ncx\" href=\"toc.ncx\" media-type=\"application/x-dtbncx+xml\"/>\<newline>'' @
              ''        <item id=\"css\" href=\"style.css\" media-type=\"text/css\"/>\<newline>'' @
              ''        '' @ (if coverImageUrl bookInfo \<noteq> []
                             then ''<item id=\"cover-image\" href=\"cover.jpg\" media-type=\"image/jpeg\"/>''
                             else []) @ ''\<newline>'' @
              ''        '' @ manifestItem 0 @
                concat (map (\<lambda>k. ''\<newline>        '' @ manifestItem k) [1..<length twoChapters]) @
                ''\<newline>'' @
              ''    </manifest>\<newline>'' @
              ''    <spine toc=\"ncx\">\<newline>'' @
              ''        '' @ spineItem 0 @
                concat (map (\<lambda>k. ''\<newline>        '' @ spineItem k) [1..<length twoChapters]) @
                ''\<newline>'' @
              ''    </spine>\<newline>'' @
              ''</package>'')"
    "?epub ''OEBPS/toc.ncx'' = Some (ncxHead bookEnv bookInfo @
              ''    <navMap>\<newline>'' @
              ''        '' @ navPoint 0 (twoChapters ! 0) @
                concat (map (\<lambda>k. ''\<newline>        '' @ navPoint k (twoChapters ! k))
                          [1..<length twoChapters]) @
                ''\<newline>'' @
              ''    </navMap>\<newline>'' @
              ''</ncx>'')"
    using facts run by blast+
  show ?thesis
    using run second docs unfolding two len cover by (simp add: items points)
qed

subsection \<open>The chapters that are packed\<close>

lemma getSelectedChapters_iff:
  "c \<in> set (getSelectedChapters app) \<longleftrightarrow>
     (\<exists>i < length (currentChapters app).
        currentChapters app ! i = c \<and> checkboxes app i = Some True \<and> status c = Completed)"
  by (auto simp: getSelectedChapters_def in_set_enumerate_eq image_iff)

lemma handlePackEpub_result:
  assumes "fst (handlePackEpub h env metaInfo app) = Inr epub"
  shows "generateEpub h env metaInfo (getSelectedChapters app) (archive app) = Inr epub"
    and "snd (handlePackEpub h env metaInfo app) = app\<lparr>archive := epub\<rparr>"
  using assms by (auto simp: handlePackEpub_def split: if_splits sum.splits)

text \<open>
  What a run of \<open>handlePackEpub\<close> writes is made from the selected chapters alone, each
  of them checked and completed: the package document, the navigation document and the
  chapter files up to their number. A chapter file beyond that number is in the container
  only if the archive held it before the run.
\<close>

lemma pack_selected_only:
  assumes "fst (handlePackEpub h env metaInfo app) = Inr epub"
  shows "epub ''OEBPS/content.opf'' = Some (contentOpf env metaInfo (getSelectedChapters app))"
    and "epub ''OEBPS/toc.ncx'' = Some (tocNcx env metaInfo (getSelectedChapters app))"
    and "length (manifestItems (getSelectedChapters app)) = length (getSelectedChapters app)"
    and "length (spineItems (getSelectedChapters app)) = length (getSelectedChapters app)"
    and "length (navPoints (getSelectedChapters app)) = length (getSelectedChapters app)"
    and "\<forall>c \<in> set (getSelectedChapters app). status c = Completed"
    and "k < length (getSelectedChapters app) \<Longrightarrow>
           epub (chapterFile k) = Some (chapterXhtml h (getSelectedChapters app ! k))"
    and "length (getSelectedChapters app) \<le> k \<Longrightarrow> epub (chapterFile k) = archive app (chapterFile k)"
proof -
  note run = handlePackEpub_result(1) [OF assms]
  show "epub ''OEBPS/content.opf'' = Some (contentOpf env metaInfo (getSelectedChapters app))"
    by (rule generateEpub_files(1) [OF run])
  show "epub ''OEBPS/toc.ncx'' = Some (tocNcx env metaInfo (getSelectedChapters app))"
    by (rule generateEpub_files(2) [OF run])
  show "length (manifestItems (getSelectedChapters app)) = length (getSelectedChapters app)"
    by (simp add: manifestItems_def)
  show "length (spineItems (getSelectedChapters app)) = length (getSelectedChapters app)"
    by (simp add: spineItems_def)
  show "length (navPoints (getSelectedChapters app)) = length (getSelectedChapters app)"
    by (simp add: navPoints_def)
  show "\<forall>c \<in> set (getSelectedChapters app). status c = Completed"
    by (auto simp: getSelectedChapters_iff)
  show "epub (chapterFile k) = Some (chapterXhtml h (getSelectedChapters app ! k))"
    if "k < length (getSelectedChapters app)"
    by (rule generateEpub_files(3) [OF run that])
  show "epub (chapterFile k) = archive app (chapterFile k)"
    if "length (getSelectedChapters app) \<le> k"
    by (rule generateEpub_files(4) [OF run that])
qed

lemma fetchedApp_selected: "getSelectedChapters fetchedApp = twoChapters"
  by code_simp

lemma repackApp_selected: "getSelectedChapters repackApp = [twoChapters ! 0]"
proof -
  have "currentChapters repackApp = twoChapters"
    by (simp add: repackApp_def packedApp_def handlePackEpub_def fetchedApp_def Let_def
        split: sum.splits)
  then show ?thesis
    by (simp add: getSelectedChapters_def repackApp_def twoChapters_def enumerate_eq_zip upt_rec)
qed

lemma packedApp_archive:
  "archive packedApp (chapterFile 1) = Some (chapterXhtml (exampleHost plainPage) (twoChapters ! 1))"
proof -
  obtain epub where epub: "generateEpub (exampleHost plainPage) bookEnv bookInfo twoChapters Map.empty
      = Inr epub"
    by (auto simp: generateEpub_def twoChapters_def)
  have "fst (handlePackEpub (exampleHost plainPage) bookEnv bookInfo fetchedApp) = Inr epub"
    using epub by (simp add: handlePackEpub_def fetchedApp_selected) (simp add: fetchedApp_def twoChapters_def)
  then have packed: "packedApp = fetchedApp\<lparr>archive := epub\<rparr>"
    unfolding packedApp_def by (rule handlePackEpub_result(2))
  have "epub (chapterFile 1) = Some (chapterXhtml (exampleHost plainPage) (twoChapters ! 1))"
    by (rule generateEpub_files(3) [OF epub]) (simp add: twoChapters_def)
  then show ?thesis by (simp add: packed)
qed

text \<open>
  C6 fails when a container is generated a second time. The generator keeps its archive
  from one run to the next: with the second of two chapters deselected after a first run,
  the package document of the second container lists one chapter, and the container still
  holds the file \<open>OEBPS/chapter-2.xhtml\<close> with the document of the deselected chapter.
\<close>

theorem deselected_chapter_document:
  "getSelectedChapters repackApp = [twoChapters ! 0] \<and>
   checkboxes repackApp 1 = Some False \<and>
   currentChapters repackApp ! 1 = twoChapters ! 1 \<and>
   (case fst (handlePackEpub (exampleHost plainPage) bookEnv bookInfo repackApp) of
      Inl e \<Rightarrow> False
    | Inr epub \<Rightarrow>
        epub ''OEBPS/content.opf'' = Some (contentOpf bookEnv bookInfo [twoChapters ! 0]) \<and>
        length (spineItems [twoChapters ! 0]) = 1 \<and>
        chapterFile 1 = ''OEBPS/chapter-2.xhtml'' \<and>
        epub ''OEBPS/chapter-2.xhtml''
          = Some (chapterXhtml (exampleHost plainPage) (twoChapters ! 1)))"
proof -
  have sel: "getSelectedChapters repackApp = [twoChapters ! 0]"
    by (rule repackApp_selected)
  have name: "chapterFile 1 = ''OEBPS/chapter-2.xhtml''"
    by code_simp
  obtain epub where epub: "generateEpub (exampleHost plainPage) bookEnv bookInfo [twoChapters ! 0]
      (archive repackApp) = Inr epub"
    by (auto simp: generateEpub_def)
  then have run: "fst (handlePackEpub (exampleHost plainPage) bookEnv bookInfo repackApp) = Inr epub"
    by (simp add: handlePackEpub_def sel)
  have "epub (chapterFile 1) = archive repackApp (chapterFile 1)"
    by (rule generateEpub_files(4) [OF epub]) simp
  also have "\<dots> = Some (chapterXhtml (exampleHost plainPage) (twoChapters ! 1))"
    using packedApp_archive by (simp add: repackApp_def)
  finally have "epub (chapterFile 1)
      = Some (chapterXhtml (exampleHost plainPage) (twoChapters ! 1))" .
  then have stale: "epub ''OEBPS/chapter-2.xhtml''
      = Some (chapterXhtml (exampleHost plainPage) (twoChapters ! 1))"
    unfolding name .
  have opf: "epub ''OEBPS/content.opf'' = Some (contentOpf bookEnv bookInfo [twoChapters ! 0])"
    by (rule generateEpub_files(1) [OF epub])
  have box: "checkboxes repackApp 1 = Some False"
    by (simp add: repackApp_def)
  have cur: "currentChapters repackApp ! 1 = twoChapters ! 1"
    by (simp add: repackApp_def packedApp_def handlePackEpub_def fetchedApp_def Let_def
        split: sum.splits)
  show ?thesis
    using sel name stale opf box cur by (simp add: run spineItems_def)
qed

subsection \<open>The guard on the extracted content\<close>

lemma trim_Nil [simp]: "trim [] = []"
  by (simp add: trim_def)

lemma extractFromPage_found:
  assumes "parseHTML h html = Inr doc" and "urlHostname h absoluteUrl = Inr hostname"
    and "findContentElement doc (rulesFor hostname) = Some el"
  shows "extractFromPage h absoluteUrl html =
     (if length (trim (extractContent (Some (removeUnwantedElements el)))) < 100
      then Inl ContentTooShort
      else Inr (extractContent (Some (removeUnwantedElements el))))"
  using assms by (auto simp: extractFromPage_def Let_def)

lemma extractFromPage_too_short:
  "extractFromPage h absoluteUrl html = Inl ContentTooShort \<longleftrightarrow>
     (\<exists>doc hostname el.
        parseHTML h html = Inr doc \<and> urlHostname h absoluteUrl = Inr hostname \<and>
        findContentElement doc (rulesFor hostname) = Some el \<and>
        length (trim (extractContent (Some (removeUnwantedElements el)))) < 100)"
proof
  assume short: "extractFromPage h absoluteUrl html = Inl ContentTooShort"
  then obtain doc where doc: "parseHTML h html = Inr doc"
    by (cases "parseHTML h html") (auto simp: extractFromPage_def parseHTML_def split: option.splits)
  from short doc obtain hostname where hn: "urlHostname h absoluteUrl = Inr hostname"
    by (cases "urlHostname h absoluteUrl") (auto simp: extractFromPage_def)
  from short doc hn obtain el where el: "findContentElement doc (rulesFor hostname) = Some el"
    by (cases "findContentElement doc (rulesFor hostname)") (auto simp: extractFromPage_def)
  from short have "length (trim (extractContent (Some (removeUnwantedElements el)))) < 100"
    by (simp add: extractFromPage_found [OF doc hn el] split: if_splits)
  with doc hn el show "\<exists>doc hostname el.
        parseHTML h html = Inr doc \<and> urlHostname h absoluteUrl = Inr hostname \<and>
        findContentElement doc (rulesFor hostname) = Some el \<and>
        length (trim (extractContent (Some (removeUnwantedElements el)))) < 100"
    by blast
next
  assume "\<exists>doc hostname el.
        parseHTML h html = Inr doc \<and> urlHostname h absoluteUrl = Inr hostname \<and>
        findContentElement doc (rulesFor hostname) = Some el \<and>
        length (trim (extractContent (Some (removeUnwantedElements el)))) < 100"
  then show "extractFromPage h absoluteUrl html = Inl ContentTooShort"
    by (auto simp: extractFromPage_found)
qed

text \<open>
  C3, as the code has it. The guard looks at the string that \<open>extractContent\<close> returns,
  which is the serialised markup of the cleaned body, tags included. Extraction ends with
  "Extracted content is too short or empty" exactly when a content element is found and
  that markup, trimmed, is shorter than 100 characters: with exactly 100 characters the
  content is returned, with 99 it is rejected.
\<close>

theorem content_too_short:
  "(extractFromPage h absoluteUrl html = Inl ContentTooShort \<longleftrightarrow>
      (\<exists>doc hostname el.
         parseHTML h html = Inr doc \<and> urlHostname h absoluteUrl = Inr hostname \<and>
         findContentElement doc (rulesFor hostname) = Some el \<and>
         length (trim (extractContent (Some (removeUnwantedElements el)))) < 100)) \<and>
   (parseHTML h html = Inr doc \<and> urlHostname h absoluteUrl = Inr hostname \<and>
    findContentElement doc (rulesFor hostname) = Some el \<longrightarrow>
      (length (trim (extractContent (Some (removeUnwantedElements el)))) = 100 \<longrightarrow>
         extractFromPage h absoluteUrl html = Inr (extractContent (Some (removeUnwantedElements el)))) \<and>
      (length (trim (extractContent (Some (removeUnwantedElements el)))) = 99 \<longrightarrow>
         extractFromPage h absoluteUrl html = Inl ContentTooShort))"
proof (intro conjI impI)
  show "extractFromPage h absoluteUrl html = Inl ContentTooShort \<longleftrightarrow>
      (\<exists>doc hostname el.
         parseHTML h html = Inr doc \<and> urlHostname h absoluteUrl = Inr hostname \<and>
         findContentElement doc (rulesFor hostname) = Some el \<and>
         length (trim (extractContent (Some (removeUnwantedElements el)))) < 100)"
    by (rule extractFromPage_too_short)
next
  assume found: "parseHTML h html = Inr doc \<and> urlHostname h absoluteUrl = Inr hostname \<and>
    findContentElement doc (rulesFor hostname) = Some el"
  {
    assume "length (trim (extractContent (Some (removeUnwantedElements el)))) = 100"
    with found show "extractFromPage h absoluteUrl html
        = Inr (extractContent (Some (removeUnwantedElements el)))"
      by (simp add: extractFromPage_found)
  }
  {
    assume "length (trim (extractContent (Some (removeUnwantedElements el)))) = 99"
    with found show "extractFromPage h absoluteUrl html = Inl ContentTooShort"
      by (simp add: extractFromPage_found)
  }
qed

theorem content_too_short_witness:
  "parseHTML (exampleHost (paragraphPage 93)) ''<html>'' = Inr (paragraphPage 93) \<and>
   urlHostname (exampleHost (paragraphPage 93)) ''http://n.org/c1'' = Inr ''n.org'' \<and>
   findContentElement (paragraphPage 93) (rulesFor ''n.org'') = Some (paragraphBody 93) \<and>
   length (trim (extractContent (Some (removeUnwantedElements (paragraphBody 93))))) = 100 \<and>
   extractFromPage (exampleHost (paragraphPage 93)) ''http://n.org/c1'' ''<html>''
     = Inr (extractContent (Some (removeUnwantedElements (paragraphBody 93)))) \<and>
   parseHTML (exampleHost (paragraphPage 92)) ''<html>'' = Inr (paragraphPage 92) \<and>
   urlHostname (exampleHost (paragraphPage 92)) ''http://n.org/c1'' = Inr ''n.org'' \<and>
   findContentElement (paragraphPage 92) (rulesFor ''n.org'') = Some (paragraphBody 92) \<and>
   length (trim (extractContent (Some (removeUnwantedElements (paragraphBody 92))))) = 99 \<and>
   extractFromPage (exampleHost (paragraphPage 92)) ''http://n.org/c1'' ''<html>''
     = Inl ContentTooShort"
proof -
  have a: "parseHTML (exampleHost (paragraphPage 93)) ''<html>'' = Inr (paragraphPage 93)"
    "urlHostname (exampleHost (paragraphPage 93)) ''http://n.org/c1'' = Inr ''n.org''"
    "findContentElement (paragraphPage 93) (rulesFor ''n.org'') = Some (paragraphBody 93)"
    "length (trim (extractContent (Some (removeUnwantedElements (paragraphBody 93))))) = 100"
    by code_simp+
  have b: "parseHTML (exampleHost (paragraphPage 92)) ''<html>'' = Inr (paragraphPage 92)"
    "urlHostname (exampleHost (paragraphPage 92)) ''http://n.org/c1'' = Inr ''n.org''"
    "findContentElement (paragraphPage 92) (rulesFor ''n.org'') = Some (paragraphBody 92)"
    "length (trim (extractContent (Some (removeUnwantedElements (paragraphBody 92))))) = 99"
    by code_simp+
  show ?thesis
    using content_too_short
      [of "exampleHost (paragraphPage 93)" "''http://n.org/c1''" "''<html>''"
          "paragraphPage 93" "''n.org''" "paragraphBody 93"]
      content_too_short
      [of "exampleHost (paragraphPage 92)" "''http://n.org/c1''" "''<html>''"
          "paragraphPage 92" "''n.org''" "paragraphBody 92"]
      a b
    by blast
qed

text \<open>
  C3 as worded, with the length of the text, fails: a body whose text has 99 characters
  passes the guard, since its markup has 106.
\<close>

theorem content_too_short_counterexample:
  "findContentElement (paragraphPage 99) (rulesFor ''n.org'') = Some (paragraphBody 99) \<and>
   length (trim (textContent (paragraphBody 99))) = 99 \<and>
   length (trim (textContent (normalizeContent (removeUnwantedElements (paragraphBody 99))))) = 99 \<and>
   length (trim (extractContent (Some (removeUnwantedElements (paragraphBody 99))))) = 106 \<and>
   extractFromPage (exampleHost (paragraphPage 99)) ''http://n.org/c1'' ''<html>''
     = Inr (''<p>'' @ replicate 99 (CHR ''x'') @ ''</p>'')"
  by code_simp

subsection \<open>The largest text block\<close>















subsection \<open>White space\<close>
















subsection \<open>Elements of a subtree\<close>





lemma descendants_Element:
  "d \<in> set (descendants (Element t as cs)) \<longleftrightarrow> (\<exists>c \<in> set cs. d \<in> set (elementsOf c))"
  by (auto simp: descendants_def)



subsection \<open>A step that finds nothing to do\<close>









subsection \<open>What the steps keep\<close>














subsection \<open>The output of the steps\<close>




























subsection \<open>A second run\<close>





end
